theory Spec2Isabelle
  imports Main "HOL-Library.List_Lexorder" "HOL-Library.Sublist"
begin

section \<open>Strings\<close>

text \<open>
  A Python \<open>str\<close> is a sequence of Unicode code points: \<open>len\<close> counts code points, and
  \<open>sorted\<close> compares strings lexicographically by code point (a proper prefix is smaller).
  A string is therefore a list of code points, ordered by the lexicographic order of
  lists. \<open>ascii\<close> writes an ASCII literal.
\<close>

type_synonym pystr = "nat list"

definition ascii :: "string \<Rightarrow> pystr" where
  "ascii s = map of_char s"

text \<open>\<open>"sep".join(parts)\<close>.\<close>

fun join :: "pystr \<Rightarrow> pystr list \<Rightarrow> pystr" where
  "join sep [] = []"
| "join sep [x] = x"
| "join sep (x # y # ys) = x @ sep @ join sep (y # ys)"

text \<open>\<open>s.startswith(".")\<close>.\<close>

definition startswith_dot :: "pystr \<Rightarrow> bool" where
  "startswith_dot s = (case s of [] \<Rightarrow> False | c # cs \<Rightarrow> c = 46)"

text \<open>
  \<open>p.rfind(c)\<close> for a single character: the index of the last occurrence, \<open>-1\<close> when
  there is none.
\<close>

definition rfind :: "nat \<Rightarrow> pystr \<Rightarrow> int" where
  "rfind c p =
    (if c \<in> set p
     then int (length p) - 1 - int (length (takeWhile (\<lambda>x. x \<noteq> c) (rev p)))
     else - 1)"

text \<open>
  \<open>os.path.splitext\<close> (posixpath): the extension starts at the last dot of the last path
  component, unless that component has only dots before it.
\<close>

definition splitext :: "pystr \<Rightarrow> pystr \<times> pystr" where
  "splitext p =
    (let sepIndex = rfind 47 p; dotIndex = rfind 46 p in
     if dotIndex > sepIndex \<and> (\<exists>i \<in> set [nat (sepIndex + 1) ..< nat dotIndex]. p ! i \<noteq> 46)
     then (take (nat dotIndex) p, drop (nat dotIndex) p)
     else (p, []))"

text \<open>\<open>os.path.basename\<close> (posixpath): what follows the last slash.\<close>

definition basename :: "pystr \<Rightarrow> pystr" where
  "basename p = drop (nat (rfind 47 p + 1)) p"

text \<open>
  \<open>str.lower\<close> follows the Unicode case tables, which are not reproduced here. The
  functions that call it take it as the parameter \<open>lower\<close>; \<open>lower_latin1\<close> is that
  function on strings of code points below 256 (ASCII and Latin-1), where lowering is
  character by character: \<open>A\<close>..\<open>Z\<close> and U+00C0..U+00DE except the multiplication sign
  U+00D7 move up by 32, every other character stays.
\<close>

definition lower_cp :: "nat \<Rightarrow> nat" where
  "lower_cp c = (if (65 \<le> c \<and> c \<le> 90) \<or> (192 \<le> c \<and> c \<le> 222 \<and> c \<noteq> 215) then c + 32 else c)"

definition lower_latin1 :: "pystr \<Rightarrow> pystr" where
  "lower_latin1 s = map lower_cp s"

section \<open>Directory structures\<close>

text \<open>
  A directory structure is the dictionary built by the walk: the reserved key \<open>"_files"\<close>
  holds the list of the directory's file names, and every other key is the name of a
  subdirectory and holds that subdirectory's dictionary. \<open>files\<close> is the value under
  \<open>"_files"\<close> (\<open>None\<close> when the key is absent), \<open>subdirs\<close> the other items of the
  dictionary in insertion order.
\<close>

datatype "structure" =
  Structure (files: "pystr list option") (subdirs: "(pystr \<times> structure) list")

definition FILES :: pystr where
  "FILES = ascii ''_files''"

text \<open>The empty dictionary \<open>{}\<close>.\<close>

definition empty_dict :: "structure" where
  "empty_dict = Structure None []"

text \<open>
  The association list stands for a dictionary when its keys are distinct and none is the
  reserved key, at every level.
\<close>

fun well_formed :: "structure \<Rightarrow> bool" where
  "well_formed (Structure fs sd) =
    (distinct (map fst sd) \<and> FILES \<notin> set (map fst sd) \<and> list_all (\<lambda>(k, c). well_formed c) sd)"

text \<open>Truth value of a dictionary: it is not empty.\<close>

definition truthy :: "structure \<Rightarrow> bool" where
  "truthy s = (files s \<noteq> None \<or> subdirs s \<noteq> [])"

text \<open>\<open>s.get("_files", [])\<close>.\<close>

definition get_files :: "structure \<Rightarrow> pystr list" where
  "get_files s = (case files s of None \<Rightarrow> [] | Some fs \<Rightarrow> fs)"

text \<open>\<open>s.get(folder, {})\<close> and \<open>s[folder]\<close> for a key other than \<open>"_files"\<close>.\<close>

definition get_folder :: "structure \<Rightarrow> pystr \<Rightarrow> structure" where
  "get_folder s folder = (case map_of (subdirs s) folder of None \<Rightarrow> empty_dict | Some c \<Rightarrow> c)"

text \<open>\<open>k in s\<close>.\<close>

definition has_key :: "structure \<Rightarrow> pystr \<Rightarrow> bool" where
  "has_key s k = (if k = FILES then files s \<noteq> None else k \<in> set (map fst (subdirs s)))"

text \<open>\<open>s.keys()\<close>.\<close>

definition keys :: "structure \<Rightarrow> pystr list" where
  "keys s = (case files s of None \<Rightarrow> [] | Some fs \<Rightarrow> [FILES]) @ map fst (subdirs s)"

text \<open>\<open>color_map.get(ext, default)\<close>.\<close>

definition dict_get :: "(pystr \<rightharpoonup> pystr) \<Rightarrow> pystr \<Rightarrow> pystr \<Rightarrow> pystr" where
  "dict_get m k d = (case m k of None \<Rightarrow> d | Some v \<Rightarrow> v)"

lemma size_subdir: "(k, c) \<in> set (subdirs s) \<Longrightarrow> size c < size s"
  by (cases s)
    (auto simp: less_Suc_eq_le
      dest!: size_list_estimation' [where f = "size_prod (\<lambda>x. 0) size" and y = "size c"])

lemma size_structure_pos: "0 < size (s :: structure)"
  by (cases s) simp

lemma size_get_folder: "size (get_folder s k) \<le> size s"
proof (cases "map_of (subdirs s) k")
  case None
  then show ?thesis
    using size_structure_pos [of s] by (simp add: get_folder_def empty_dict_def)
next
  case (Some c)
  then have "(k, c) \<in> set (subdirs s)"
    by (rule map_of_SomeD)
  then show ?thesis
    using Some by (simp add: get_folder_def less_imp_le size_subdir)
qed

lemma size_key_folder:
  assumes "k \<in> set (keys s)" and "k \<noteq> FILES"
  shows "size (get_folder s k) < size s"
proof -
  from assms have "k \<in> fst ` set (subdirs s)"
    by (auto simp: keys_def split: option.splits)
  then obtain c' where c': "map_of (subdirs s) k = Some c'"
    by (cases "map_of (subdirs s) k") (auto simp: map_of_eq_None_iff)
  then have "(k, c') \<in> set (subdirs s)"
    by (rule map_of_SomeD)
  then show ?thesis
    using c' by (simp add: get_folder_def size_subdir)
qed

section \<open>The diff tree of the interactive view\<close>

text \<open>
  A \<open>rich\<close> tree node has a label and a list of children. A label is a styled text, with
  its plain text and its style string, or a bare string. \<open>tree.add(label)\<close> appends a new
  node with that label to the children and returns it. \<open>Text(text, style)\<close> of \<open>rich\<close>
  builds a styled text from the text it is given without the control codes U+0007,
  U+0008, U+000B, U+000C and U+000D (\<open>Text.__init__\<close> calls \<open>strip_control_codes\<close> of
  \<open>rich/control.py\<close>); a bare string is kept as it is.
\<close>

definition strip_control_codes :: "pystr \<Rightarrow> pystr" where
  "strip_control_codes text = filter (\<lambda>c. c \<notin> {7, 8, 11, 12, 13}) text"

datatype label = Styled (plain: pystr) (style: pystr) | Str pystr

definition Text :: "pystr \<Rightarrow> pystr \<Rightarrow> label" where
  "Text text st = Styled (strip_control_codes text) st"

datatype tree = Tree (label: label) (children: "tree list")

text \<open>The labels \<open>f"\<dots> {file}"\<close> and \<open>f"\<dots> {folder}"\<close>: the page glyph U+1F4C4 and the folder
  glyph U+1F4C1, a space, the name.\<close>

definition file_label :: "pystr \<Rightarrow> pystr" where
  "file_label file = [128196, 32] @ file"

definition folder_label :: "pystr \<Rightarrow> pystr" where
  "folder_label folder = [128193, 32] @ folder"

text \<open>
  \<open>build_comparison_tree\<close> (compare.py, lines 72 to 128). The function appends nodes to
  \<open>tree\<close> in four passes and returns nothing; the model returns \<open>tree\<close> as it is after the
  call. The four lists are the nodes the four passes add, in order: the files of
  \<open>structure\<close>, its folders (each with the subtree the recursive call builds under it), the
  files that only \<open>other_structure\<close> has, and the folders that only \<open>other_structure\<close> has.
  \<open>sort_files_by_type\<close> is the helper of \<open>recursivist.core\<close>, taken as a parameter, and
  \<open>lower\<close> is \<open>str.lower\<close>.
\<close>

function build_comparison_tree ::
  "(pystr list \<Rightarrow> pystr list) \<Rightarrow> (pystr \<Rightarrow> pystr) \<Rightarrow> structure \<Rightarrow> structure \<Rightarrow> tree \<Rightarrow>
   (pystr \<rightharpoonup> pystr) \<Rightarrow> pystr \<Rightarrow> tree"
where
  "build_comparison_tree sort_files_by_type lower structure other_structure tree color_map parent_name =
    (let
      own_files =
        (case files structure of
          None \<Rightarrow> []
        | Some fs \<Rightarrow>
            (let files_in_other = (if truthy other_structure then get_files other_structure else []) in
             map (\<lambda>file.
                let ext = lower (snd (splitext file));
                    color = dict_get color_map ext (ascii ''#FFFFFF'')
                in if file \<notin> set files_in_other
                   then Tree (Text (file_label file) (color @ ascii '' on green'')) []
                   else Tree (Text (file_label file) color) [])
              (sort_files_by_type fs)));
      own_folders =
        map (\<lambda>(folder, content).
            let other_content =
                  (if truthy other_structure then get_folder other_structure folder else empty_dict);
                subtree =
                  (if \<not> has_key (if truthy other_structure then other_structure else empty_dict) folder
                   then Tree (Text (folder_label folder) (ascii ''green'')) []
                   else Tree (Str (folder_label folder)) [])
            in build_comparison_tree sort_files_by_type lower content other_content subtree color_map folder)
          (filter (\<lambda>(folder, content). folder \<noteq> FILES) (sort_key fst (subdirs structure)));
      other_files =
        (if truthy other_structure \<and> has_key other_structure FILES
         then (let files_in_this = get_files structure in
               map (\<lambda>file.
                  let ext = lower (snd (splitext file));
                      color = dict_get color_map ext (ascii ''#FFFFFF'')
                  in Tree (Text (file_label file) (color @ ascii '' on red'')) [])
                (filter (\<lambda>file. file \<notin> set files_in_this)
                  (sort_files_by_type (get_files other_structure))))
         else []);
      other_folders =
        (if truthy other_structure
         then map (\<lambda>folder.
                build_comparison_tree sort_files_by_type lower empty_dict (get_folder other_structure folder)
                  (Tree (Text (folder_label folder) (ascii ''red'')) []) color_map folder)
              (filter (\<lambda>folder. folder \<noteq> FILES \<and> \<not> has_key structure folder)
                (sort (keys other_structure)))
         else [])
     in Tree (label tree) (children tree @ own_files @ own_folders @ other_files @ other_folders))"
  by pat_completeness auto
termination
proof (relation "measure (\<lambda>(sf, lw, s, other, t, cm, pn). size s + size other)", goal_cases)
  case 1
  show ?case by simp
next
  case (2 sf lw s other t cm pn x xa folder content oc st)
  then have "(folder, content) \<in> set (subdirs s)"
    by auto
  then have "size content < size s"
    by (rule size_subdir)
  moreover have "size oc \<le> size other"
    using 2 size_get_folder [of other folder] size_structure_pos [of other]
    by (auto simp: empty_dict_def)
  ultimately show ?case
    by simp
next
  case (3 sf lw s other t cm pn x xa xb folder)
  then have "size (get_folder other folder) < size other"
    by (auto intro: size_key_folder)
  moreover have "size empty_dict \<le> size s"
    using size_structure_pos [of s] by (simp add: empty_dict_def)
  ultimately show ?case
    by simp
qed

declare build_comparison_tree.simps [simp del]

section \<open>The text tree\<close>

text \<open>
  The values of a structure dictionary: the list under \<open>"_files"\<close> or a subdirectory.
  \<open>items\<close> is \<open>structure.items()\<close>; the keys are distinct, so the place of \<open>"_files"\<close>
  among them does not show once the items are sorted.
\<close>

datatype item = FileList "pystr list" | SubDir "structure"

definition items :: "structure \<Rightarrow> (pystr \<times> item) list" where
  "items s =
    (case files s of None \<Rightarrow> [] | Some fs \<Rightarrow> [(FILES, FileList fs)]) @
    map (\<lambda>(k, c). (k, SubDir c)) (subdirs s)"

lemma size_item:
  assumes "(k, SubDir c) \<in> set (items s)"
  shows "size c < size s"
proof -
  from assms have "(k, c) \<in> set (subdirs s)"
    by (auto simp: items_def split: option.splits)
  then show ?thesis
    by (rule size_subdir)
qed

lemma size_enumerated_item:
  assumes "(i, k, SubDir c) \<in> set (enumerate 0 (sort_key fst (items s)))"
  shows "size c < size s"
proof -
  from assms have "i < length (sort_key fst (items s))"
    and "sort_key fst (items s) ! i = (k, SubDir c)"
    by (simp_all add: in_set_enumerate_eq)
  then have "(k, SubDir c) \<in> set (sort_key fst (items s))"
    by (metis nth_mem)
  then have "(k, SubDir c) \<in> set (items s)"
    by simp
  then show ?thesis
    by (rule size_item)
qed

text \<open>
  \<open>_build_txt_tree\<close> (compare.py, lines 321 to 354); \<open>prefix'\<close> is its parameter
  \<open>prefix\<close>. The connectors are U+2514 and U+251C followed by two U+2500, the continuation
  is U+2502 and three spaces.
\<close>

function build_txt_tree :: "(pystr list \<Rightarrow> pystr list) \<Rightarrow> structure \<Rightarrow> pystr \<Rightarrow> bool \<Rightarrow> pystr list" where
  "build_txt_tree sort_files_by_type structure prefix' is_last =
    (let
      items = sort_key fst (items structure);
      folder_lines =
        concat (map (\<lambda>(i, name, content).
            if name = FILES then []
            else
              (let is_last_item =
                     (int i = int (length items) - 1 \<or>
                      (int i = int (length items) - 2 \<and> has_key structure FILES));
                   line =
                     (if is_last_item then prefix' @ [9492, 9472, 9472, 32, 128193, 32] @ name
                      else prefix' @ [9500, 9472, 9472, 32, 128193, 32] @ name);
                   new_prefix =
                     (if is_last_item then prefix' @ [32, 32, 32, 32] else prefix' @ [9474, 32, 32, 32])
               in line #
                  (case content of
                    SubDir c \<Rightarrow> build_txt_tree sort_files_by_type c new_prefix is_last_item
                  | FileList fs \<Rightarrow> [])))
          (enumerate 0 items));
      file_lines =
        (if has_key structure FILES
         then (let files = sort_files_by_type (get_files structure) in
               map (\<lambda>(i, file).
                   if int i = int (length files) - 1
                   then prefix' @ [9492, 9472, 9472, 32, 128196, 32] @ file
                   else prefix' @ [9500, 9472, 9472, 32, 128196, 32] @ file)
                 (enumerate 0 files))
         else [])
     in folder_lines @ file_lines)"
  by pat_completeness auto
termination
proof (relation "measure (\<lambda>(sf, s, p, b). size s)", goal_cases)
  case 1
  show ?case by simp
next
  case 2
  then show ?case
    by (auto intro: size_enumerated_item)
qed

declare build_txt_tree.simps [simp del]

section \<open>The comparison data\<close>

text \<open>
  The dictionary \<open>comparison_data\<close> that \<open>export_comparison\<close> builds: the two sides
  under \<open>"dir1"\<close> and \<open>"dir2"\<close>, each with its path, its name and its structure, and the
  pattern metadata under \<open>"metadata"\<close>. The fields carry a prefix where the key is also
  the name of a parameter.
\<close>

record 's side =
  dir_path :: pystr
  dir_name :: pystr
  dir_structure :: 's

record pattern_metadata =
  md_exclude_patterns :: "pystr list"
  md_include_patterns :: "pystr list"
  md_pattern_type :: pystr

record 's comparison_data =
  cd_dir1 :: "'s side"
  cd_dir2 :: "'s side"
  cd_metadata :: pattern_metadata

section \<open>Files and errors\<close>

text \<open>
  The file system holds the text of each file. \<open>open(path, "w")\<close> followed by
  \<open>f.write(text)\<close> leaves \<open>text\<close> at \<open>path\<close>; when the path cannot be opened for
  writing, \<open>open\<close> raises \<open>OSError\<close> and nothing is written. A function that writes
  returns the file system after the call and the exception it raised, if any.
\<close>

record filesystem =
  contents :: "pystr \<rightharpoonup> pystr"
  writable :: "pystr \<Rightarrow> bool"

datatype error = ValueError pystr | OSError pystr | KeyError pystr | TypeError | RecursionError

definition write_text :: "filesystem \<Rightarrow> pystr \<Rightarrow> pystr \<Rightarrow> filesystem \<times> error option" where
  "write_text fs path text =
    (if writable fs path
     then (fs\<lparr>contents := (contents fs)(path \<mapsto> text)\<rparr>, None)
     else (fs, Some (OSError path)))"

section \<open>The text export\<close>

text \<open>\<open>f"{left:<{width}}"\<close>: left-justified, padded with spaces to \<open>width\<close> characters.\<close>

definition ljust :: "pystr \<Rightarrow> nat \<Rightarrow> pystr" where
  "ljust s width = s @ replicate (width - length s) 32"

text \<open>\<open>max(len(line) for line in lines)\<close>, for a list that is not empty.\<close>

definition max_len :: "pystr list \<Rightarrow> nat" where
  "max_len lines = Max (set (map length lines))"

text \<open>
  \<open>_export_comparison_to_txt\<close> (compare.py, lines 316 to 397): \<open>combined_lines\<close> is the
  list of that name when the function joins it, and the function writes the joined lines.
  \<open>txt_layout\<close> is the part of the body that works on the two trees once they are built
  (the lines that \<open>_build_txt_tree\<close> returned for each side).
\<close>

definition txt_layout :: "pystr list \<Rightarrow> pystr list \<Rightarrow> 's comparison_data \<Rightarrow> pystr list" where
  "txt_layout dir1_tree dir2_tree comparison_data =
    (let
      dir1_name = dir_name (cd_dir1 comparison_data);
      dir2_name = dir_name (cd_dir2 comparison_data);
      dir1_lines = ([128194, 32] @ dir1_name) # dir1_tree;
      dir2_lines = ([128194, 32] @ dir2_name) # dir2_tree;
      max_width = max_len dir1_lines + 4;
      heading =
        [ascii ''Directory Comparison:'',
         replicate 80 61,
         ascii ''Left: '' @ dir_path (cd_dir1 comparison_data),
         ascii ''Right: '' @ dir_path (cd_dir2 comparison_data)];
      md = cd_metadata comparison_data;
      patterns =
        (if md_exclude_patterns md \<noteq> [] \<or> md_include_patterns md \<noteq> []
         then
           [replicate 80 45] @
           (if md_exclude_patterns md \<noteq> []
            then [ascii ''Exclude '' @ md_pattern_type md @ ascii '' patterns: '' @
                  join (ascii '', '') (md_exclude_patterns md)]
            else []) @
           (if md_include_patterns md \<noteq> []
            then [ascii ''Include '' @ md_pattern_type md @ ascii '' patterns: '' @
                  join (ascii '', '') (md_include_patterns md)]
            else [])
         else []);
      rows =
        map (\<lambda>i.
            let left = (if i < length dir1_lines then dir1_lines ! i else []);
                right = (if i < length dir2_lines then dir2_lines ! i else [])
            in ljust left max_width @ ascii '' | '' @ right)
          [0 ..< max (length dir1_lines) (length dir2_lines)]
     in heading @ patterns @ [replicate 80 61] @ rows)"

definition combined_lines :: "(pystr list \<Rightarrow> pystr list) \<Rightarrow> structure comparison_data \<Rightarrow> pystr list" where
  "combined_lines sort_files_by_type comparison_data =
    (let
      dir1_structure = dir_structure (cd_dir1 comparison_data);
      dir2_structure = dir_structure (cd_dir2 comparison_data);
      dir1_tree = build_txt_tree sort_files_by_type dir1_structure [] True;
      dir2_tree = build_txt_tree sort_files_by_type dir2_structure [] True
     in txt_layout dir1_tree dir2_tree comparison_data)"

definition export_comparison_to_txt ::
  "(pystr list \<Rightarrow> pystr list) \<Rightarrow> structure comparison_data \<Rightarrow> pystr \<Rightarrow> filesystem \<Rightarrow> filesystem \<times> error option" where
  "export_comparison_to_txt sort_files_by_type comparison_data output_path fs =
    write_text fs output_path (join [10] (combined_lines sort_files_by_type comparison_data))"

section \<open>The HTML export\<close>

text \<open>\<open>html.escape\<close>, with quotes escaped.\<close>

definition escape_cp :: "nat \<Rightarrow> pystr" where
  "escape_cp c =
    (if c = 38 then ascii ''&amp;''
     else if c = 60 then ascii ''&lt;''
     else if c = 62 then ascii ''&gt;''
     else if c = 34 then ascii ''&quot;''
     else if c = 39 then ascii ''&#x27;''
     else [c])"

definition html_escape :: "pystr \<Rightarrow> pystr" where
  "html_escape s = concat (map escape_cp s)"

text \<open>
  \<open>str.capitalize\<close> on ASCII strings: the first character in upper case, the others in
  lower case. The pattern type is \<open>regex\<close> or \<open>glob\<close> when \<open>export_comparison\<close> builds the
  data.
\<close>

definition capitalize_ascii :: "pystr \<Rightarrow> pystr" where
  "capitalize_ascii s =
    (case s of
      [] \<Rightarrow> []
    | c # cs \<Rightarrow>
        (if 97 \<le> c \<and> c \<le> 122 then c - 32 else c) #
        map (\<lambda>c. if 65 \<le> c \<and> c \<le> 90 then c + 32 else c) cs)"

text \<open>
  Equality of two dictionaries (\<open>==\<close>): the same keys, with equal values; the lists under
  \<open>"_files"\<close> are equal as lists.
\<close>

fun dict_eq :: "structure \<Rightarrow> structure \<Rightarrow> bool" where
  "dict_eq (Structure f1 sd1) (Structure f2 sd2) =
    (f1 = f2 \<and> length sd1 = length sd2 \<and>
     list_all (\<lambda>(k, c). case map_of sd2 k of None \<Rightarrow> False | Some c' \<Rightarrow> dict_eq c c') sd1)"

text \<open>
  \<open>_build_html_tree\<close> (compare.py, lines 406 to 447), a closure over \<open>comparison_data\<close>.
\<close>

function build_html_tree ::
  "(pystr list \<Rightarrow> pystr list) \<Rightarrow> structure comparison_data \<Rightarrow> structure \<Rightarrow> bool \<Rightarrow> pystr"
where
  \<open>build_html_tree sort_files_by_type comparison_data structure include_differences =
    join [10]
      ([ascii ''<ul>''] @
       concat (map (\<lambda>(name, content).
           if name \<noteq> FILES
           then
             (let dir_class =
                (if include_differences
                 then
                   (let other_structure =
                      (if dict_eq structure (dir_structure (cd_dir1 comparison_data))
                       then dir_structure (cd_dir2 comparison_data)
                       else dir_structure (cd_dir1 comparison_data))
                    in if \<not> has_key other_structure name
                       then ascii '' class="directory-unique"''
                       else [])
                 else [])
              in [ascii ''<li'' @ dir_class @ ascii ''><span class="directory">'' @ [128193, 32] @
                    html_escape name @ ascii ''</span>'',
                  build_html_tree sort_files_by_type comparison_data content include_differences,
                  ascii ''</li>''])
           else [])
         (sort_key fst (subdirs structure))) @
       (if has_key structure FILES
        then
          map (\<lambda>file.
              let file_class =
                (if include_differences
                 then
                   (let other_structure =
                      (if dict_eq structure (dir_structure (cd_dir1 comparison_data))
                       then dir_structure (cd_dir2 comparison_data)
                       else dir_structure (cd_dir1 comparison_data));
                        other_files = get_files other_structure
                    in if file \<notin> set other_files then ascii '' class="file-unique"'' else [])
                 else [])
              in ascii ''<li'' @ file_class @ ascii ''><span class="file">'' @ [128196, 32] @
                   html_escape file @ ascii ''</span></li>'')
            (sort_files_by_type (get_files structure))
        else []) @
       [ascii ''</ul>''])\<close>
  by pat_completeness auto
termination
proof (relation "measure (\<lambda>(sf, cd, s, b). size s)", goal_cases)
  case 1
  show ?case by simp
next
  case 2
  then show ?case
    by (auto intro: size_subdir)
qed

declare build_html_tree.simps [simp del]

text \<open>The literal text of the page template (compare.py, lines 483 to 595).\<close>

definition html_part_1 :: pystr where
  \<open>html_part_1 =
     [10] @
     ascii ''    <!DOCTYPE html>'' @ [10] @
     ascii ''    <html>'' @ [10] @
     ascii ''    <head>'' @ [10] @
     ascii ''        <meta charset="utf-8">'' @ [10] @
     ascii ''        <title>Directory Comparison - ''\<close>

definition html_part_2 :: pystr where
  \<open>html_part_2 =
     ascii '' vs ''\<close>

definition html_part_3 :: pystr where
  \<open>html_part_3 =
     ascii ''</title>'' @ [10] @
     ascii ''        <style>'' @ [10] @
     ascii ''            body {'' @ [10] @
     ascii ''                font-family: Arial, sans-serif;'' @ [10] @
     ascii ''                margin: 0;'' @ [10] @
     ascii ''                padding: 20px;'' @ [10] @
     ascii ''            }'' @ [10] @
     ascii ''            .comparison-container {'' @ [10] @
     ascii ''                display: flex;'' @ [10] @
     ascii ''                border: 1px solid #ccc;'' @ [10] @
     ascii ''            }'' @ [10] @
     ascii ''            .directory-tree {'' @ [10] @
     ascii ''                flex: 1;'' @ [10] @
     ascii ''                padding: 15px;'' @ [10] @
     ascii ''                overflow: auto;'' @ [10] @
     ascii ''                border-right: 1px solid #ccc;'' @ [10] @
     ascii ''            }'' @ [10] @
     ascii ''            .directory-tree:last-child {'' @ [10] @
     ascii ''                border-right: none;'' @ [10] @
     ascii ''            }'' @ [10] @
     ascii ''            h1, h2 {'' @ [10] @
     ascii ''                text-align: center;'' @ [10] @
     ascii ''            }'' @ [10] @
     ascii ''            h3 {'' @ [10] @
     ascii ''                margin-top: 0;'' @ [10] @
     ascii ''                padding: 10px;'' @ [10] @
     ascii ''                background-color: #f0f0f0;'' @ [10] @
     ascii ''                border-bottom: 1px solid #ccc;'' @ [10] @
     ascii ''            }'' @ [10] @
     ascii ''            ul {'' @ [10] @
     ascii ''                list-style-type: none;'' @ [10] @
     ascii ''                padding-left: 20px;'' @ [10] @
     ascii ''            }'' @ [10] @
     ascii ''            .directory {'' @ [10] @
     ascii ''                color: #2c3e50;'' @ [10] @
     ascii ''                font-weight: bold;'' @ [10] @
     ascii ''            }'' @ [10] @
     ascii ''            .file {'' @ [10] @
     ascii ''                color: #34495e;'' @ [10] @
     ascii ''            }'' @ [10] @
     ascii ''            .file-unique {'' @ [10] @
     ascii ''                background-color: #fcf3cf;'' @ [10] @
     ascii ''            }'' @ [10] @
     ascii ''            .directory-unique {'' @ [10] @
     ascii ''                background-color: #fcf3cf;'' @ [10] @
     ascii ''            }'' @ [10] @
     ascii ''            .legend {'' @ [10] @
     ascii ''                margin-bottom: 20px;'' @ [10] @
     ascii ''                padding: 10px;'' @ [10] @
     ascii ''                background-color: #f8f9fa;'' @ [10] @
     ascii ''                border: 1px solid #ddd;'' @ [10] @
     ascii ''                border-radius: 4px;'' @ [10] @
     ascii ''            }'' @ [10] @
     ascii ''            .legend-item {'' @ [10] @
     ascii ''                display: inline-block;'' @ [10] @
     ascii ''                margin-right: 20px;'' @ [10] @
     ascii ''            }'' @ [10] @
     ascii ''            .legend-color {'' @ [10] @
     ascii ''                display: inline-block;'' @ [10] @
     ascii ''                width: 15px;'' @ [10] @
     ascii ''                height: 15px;'' @ [10] @
     ascii ''                margin-right: 5px;'' @ [10] @
     ascii ''                vertical-align: middle;'' @ [10] @
     ascii ''            }'' @ [10] @
     ascii ''            .legend-unique {'' @ [10] @
     ascii ''                background-color: #fcf3cf;'' @ [10] @
     ascii ''            }'' @ [10] @
     ascii ''            .pattern-info {'' @ [10] @
     ascii ''                margin-bottom: 20px;'' @ [10] @
     ascii ''                padding: 10px;'' @ [10] @
     ascii ''                background-color: #f0f8ff;'' @ [10] @
     ascii ''                border: 1px solid #add8e6;'' @ [10] @
     ascii ''                border-radius: 4px;'' @ [10] @
     ascii ''            }'' @ [10] @
     ascii ''            dt {'' @ [10] @
     ascii ''                font-weight: bold;'' @ [10] @
     ascii ''                margin-top: 10px;'' @ [10] @
     ascii ''            }'' @ [10] @
     ascii ''            dd {'' @ [10] @
     ascii ''                margin-left: 20px;'' @ [10] @
     ascii ''                margin-bottom: 10px;'' @ [10] @
     ascii ''            }'' @ [10] @
     ascii ''        </style>'' @ [10] @
     ascii ''    </head>'' @ [10] @
     ascii ''    <body>'' @ [10] @
     ascii ''        <h1>Directory Comparison</h1>'' @ [10] @
     ascii ''        ''\<close>

definition html_part_4 :: pystr where
  \<open>html_part_4 =
     [10] @
     ascii ''        <div class="legend">'' @ [10] @
     ascii ''            <div class="legend-item">'' @ [10] @
     ascii ''                <span class="legend-color legend-unique"></span>'' @ [10] @
     ascii ''                <span>Unique to this directory</span>'' @ [10] @
     ascii ''            </div>'' @ [10] @
     ascii ''        </div>'' @ [10] @
     ascii ''        <div class="comparison-container">'' @ [10] @
     ascii ''            <div class="directory-tree">'' @ [10] @
     ascii ''                <h3>'' @ [128194] @ ascii '' ''\<close>

definition html_part_5 :: pystr where
  \<open>html_part_5 =
     ascii ''</h3>'' @ [10] @
     ascii ''                <p><em>Path: ''\<close>

definition html_part_6 :: pystr where
  \<open>html_part_6 =
     ascii ''</em></p>'' @ [10] @
     ascii ''                ''\<close>

definition html_part_7 :: pystr where
  \<open>html_part_7 =
     [10] @
     ascii ''            </div>'' @ [10] @
     ascii ''            <div class="directory-tree">'' @ [10] @
     ascii ''                <h3>'' @ [128194] @ ascii '' ''\<close>

definition html_part_8 :: pystr where
  \<open>html_part_8 =
     ascii ''</h3>'' @ [10] @
     ascii ''                <p><em>Path: ''\<close>

definition html_part_9 :: pystr where
  \<open>html_part_9 =
     ascii ''</em></p>'' @ [10] @
     ascii ''                ''\<close>

definition html_part_10 :: pystr where
  \<open>html_part_10 =
     [10] @
     ascii ''            </div>'' @ [10] @
     ascii ''        </div>'' @ [10] @
     ascii ''    </body>'' @ [10] @
     ascii ''    </html>'' @ [10] @
     ascii ''    ''\<close>

text \<open>
  \<open>_export_comparison_to_html\<close> (compare.py, lines 400 to 598): \<open>html_template\<close> is the
  page, and the function writes it. \<open>html_page\<close> is the template with the two trees that
  \<open>_build_html_tree\<close> returned in their places.
\<close>

definition pattern_info_html :: "pattern_metadata \<Rightarrow> pystr" where
  \<open>pattern_info_html md =
    (if md_exclude_patterns md \<noteq> [] \<or> md_include_patterns md \<noteq> []
     then
       (let pattern_type = capitalize_ascii (md_pattern_type md);
            pattern_items =
              (if md_exclude_patterns md \<noteq> []
               then [ascii ''<dt>Exclude '' @ pattern_type @ ascii '' Patterns:</dt><dd>'' @
                     join (ascii '', '') (map html_escape (md_exclude_patterns md)) @ ascii ''</dd>'']
               else []) @
              (if md_include_patterns md \<noteq> []
               then [ascii ''<dt>Include '' @ pattern_type @ ascii '' Patterns:</dt><dd>'' @
                     join (ascii '', '') (map html_escape (md_include_patterns md)) @ ascii ''</dd>'']
               else [])
        in if pattern_items \<noteq> []
           then
             [10] @
             ascii ''            <div class="pattern-info">'' @ [10] @
             ascii ''                <h3>Applied Patterns</h3>'' @ [10] @
             ascii ''                <dl>'' @ [10] @
             ascii ''                    '' @ concat pattern_items @ [10] @
             ascii ''                </dl>'' @ [10] @
             ascii ''            </div>'' @ [10] @
             ascii ''            ''
           else [])
     else [])\<close>

definition html_page :: "pystr \<Rightarrow> pystr \<Rightarrow> 's comparison_data \<Rightarrow> pystr" where
  "html_page dir1_tree dir2_tree comparison_data =
    (let
      dir1_name = html_escape (dir_name (cd_dir1 comparison_data));
      dir2_name = html_escape (dir_name (cd_dir2 comparison_data));
      dir1_path = html_escape (dir_path (cd_dir1 comparison_data));
      dir2_path = html_escape (dir_path (cd_dir2 comparison_data))
     in
      html_part_1 @ dir1_name @ html_part_2 @ dir2_name @ html_part_3 @
      pattern_info_html (cd_metadata comparison_data) @ html_part_4 @
      dir1_name @ html_part_5 @ dir1_path @ html_part_6 @
      dir1_tree @
      html_part_7 @ dir2_name @ html_part_8 @ dir2_path @ html_part_9 @
      dir2_tree @
      html_part_10)"

definition html_template :: "(pystr list \<Rightarrow> pystr list) \<Rightarrow> structure comparison_data \<Rightarrow> pystr" where
  "html_template sort_files_by_type comparison_data =
    (let
      dir1_tree =
        build_html_tree sort_files_by_type comparison_data (dir_structure (cd_dir1 comparison_data)) True;
      dir2_tree =
        build_html_tree sort_files_by_type comparison_data (dir_structure (cd_dir2 comparison_data)) True
     in html_page dir1_tree dir2_tree comparison_data)"

definition export_comparison_to_html ::
  "(pystr list \<Rightarrow> pystr list) \<Rightarrow> structure comparison_data \<Rightarrow> pystr \<Rightarrow> filesystem \<Rightarrow> filesystem \<times> error option" where
  "export_comparison_to_html sort_files_by_type comparison_data output_path fs =
    write_text fs output_path (html_template sort_files_by_type comparison_data)"

section \<open>The comparator and the two entry points\<close>

text \<open>
  The collaborators of \<open>recursivist.core\<close> are not among the sources and are parameters:
  \<open>get_directory_structure\<close> walks a root under a filter configuration and returns the
  structure with the set of extensions it saw, \<open>compile_regex_patterns\<close> compiles the
  patterns (the type \<open>'p\<close> of a compiled pattern is left open), and
  \<open>generate_color_for_extension\<close> gives the colour of an extension. The walk absorbs read
  errors, so the parameters are total functions.
\<close>

type_synonym 'p walker =
  "pystr \<Rightarrow> pystr list option \<Rightarrow> pystr option \<Rightarrow> pystr set option \<Rightarrow> 'p list option \<Rightarrow>
   'p list option \<Rightarrow> structure \<times> pystr set"

text \<open>\<open>compare_directory_structures\<close> (compare.py, lines 26 to 69).\<close>

definition compare_directory_structures ::
  "'p walker \<Rightarrow> pystr \<Rightarrow> pystr \<Rightarrow> pystr list option \<Rightarrow> pystr option \<Rightarrow> pystr set option \<Rightarrow>
   'p list option \<Rightarrow> 'p list option \<Rightarrow> structure \<times> structure \<times> pystr set" where
  "compare_directory_structures get_directory_structure dir1 dir2 exclude_dirs ignore_file
      exclude_extensions exclude_patterns include_patterns =
    (let
      (structure1, extensions1) =
        get_directory_structure dir1 exclude_dirs ignore_file exclude_extensions exclude_patterns
          include_patterns;
      (structure2, extensions2) =
        get_directory_structure dir2 exclude_dirs ignore_file exclude_extensions exclude_patterns
          include_patterns;
      combined_extensions = extensions1 \<union> extensions2
     in (structure1, structure2, combined_extensions))"

text \<open>
  The set comprehension that normalizes the excluded extensions, the same in
  \<open>display_comparison\<close> (lines 163 to 166) and \<open>export_comparison\<close> (lines 279 to 282).
\<close>

definition normalize_extensions :: "(pystr \<Rightarrow> pystr) \<Rightarrow> pystr set \<Rightarrow> pystr set" where
  "normalize_extensions lower exclude_extensions =
    (\<lambda>ext. if startswith_dot ext then lower ext else [46] @ lower ext) ` exclude_extensions"

text \<open>\<open>export_comparison\<close> (compare.py, lines 240 to 313).\<close>

definition export_comparison ::
  "'p walker \<Rightarrow> (pystr list \<Rightarrow> bool \<Rightarrow> 'p list) \<Rightarrow> (pystr list \<Rightarrow> pystr list) \<Rightarrow> (pystr \<Rightarrow> pystr) \<Rightarrow>
   pystr \<Rightarrow> pystr \<Rightarrow> pystr \<Rightarrow> pystr \<Rightarrow> pystr list option \<Rightarrow> pystr option \<Rightarrow> pystr set option \<Rightarrow>
   pystr list option \<Rightarrow> pystr list option \<Rightarrow> bool \<Rightarrow> filesystem \<Rightarrow> filesystem \<times> error option" where
  "export_comparison get_directory_structure compile_regex_patterns sort_files_by_type lower
      dir1 dir2 format_type output_path exclude_dirs ignore_file exclude_extensions
      exclude_patterns include_patterns use_regex fs =
    (let
      exclude_dirs = (case exclude_dirs of None \<Rightarrow> [] | Some v \<Rightarrow> v);
      exclude_extensions = (case exclude_extensions of None \<Rightarrow> {} | Some v \<Rightarrow> v);
      exclude_patterns = (case exclude_patterns of None \<Rightarrow> [] | Some v \<Rightarrow> v);
      include_patterns = (case include_patterns of None \<Rightarrow> [] | Some v \<Rightarrow> v);
      exclude_extensions = normalize_extensions lower exclude_extensions;
      compiled_exclude = compile_regex_patterns exclude_patterns use_regex;
      compiled_include = compile_regex_patterns include_patterns use_regex;
      (structure1, structure2, extensions) =
        compare_directory_structures get_directory_structure dir1 dir2 (Some exclude_dirs)
          ignore_file (Some exclude_extensions) (Some compiled_exclude) (Some compiled_include);
      comparison_data =
        \<lparr>cd_dir1 = \<lparr>dir_path = dir1, dir_name = basename dir1, dir_structure = structure1\<rparr>,
         cd_dir2 = \<lparr>dir_path = dir2, dir_name = basename dir2, dir_structure = structure2\<rparr>,
         cd_metadata =
           \<lparr>md_exclude_patterns = exclude_patterns,
            md_include_patterns = include_patterns,
            md_pattern_type = (if use_regex then ascii ''regex'' else ascii ''glob'')\<rparr>\<rparr>
     in
      if format_type = ascii ''txt''
      then export_comparison_to_txt sort_files_by_type comparison_data output_path fs
      else if format_type = ascii ''html''
      then export_comparison_to_html sort_files_by_type comparison_data output_path fs
      else (fs, Some (ValueError (ascii ''Unsupported format: '' @ format_type))))"

text \<open>
  What \<open>display_comparison\<close> prints on the console: panels and columns of \<open>rich\<close>. A panel
  has a content (a string, a \<open>Text\<close> given by its styled spans, or a tree), a title and a
  border style.
\<close>

datatype content = Line pystr | Spans "(pystr \<times> pystr) list" | Diff tree

datatype renderable =
  Panel content "pystr option" pystr
| Columns "renderable list"

text \<open>\<open>display_comparison\<close> (compare.py, lines 131 to 237); the result is the list of the
  objects passed to \<open>console.print\<close>, in order.\<close>

definition display_comparison ::
  "'p walker \<Rightarrow> (pystr list \<Rightarrow> bool \<Rightarrow> 'p list) \<Rightarrow> (pystr list \<Rightarrow> pystr list) \<Rightarrow> (pystr \<Rightarrow> pystr) \<Rightarrow>
   (pystr \<Rightarrow> pystr) \<Rightarrow> pystr \<Rightarrow> pystr \<Rightarrow> pystr list option \<Rightarrow> pystr option \<Rightarrow> pystr set option \<Rightarrow>
   pystr list option \<Rightarrow> pystr list option \<Rightarrow> bool \<Rightarrow> renderable list" where
  "display_comparison get_directory_structure compile_regex_patterns sort_files_by_type lower
      generate_color_for_extension dir1 dir2 exclude_dirs ignore_file exclude_extensions
      exclude_patterns include_patterns use_regex =
    (let
      exclude_dirs = (case exclude_dirs of None \<Rightarrow> [] | Some v \<Rightarrow> v);
      exclude_extensions = (case exclude_extensions of None \<Rightarrow> {} | Some v \<Rightarrow> v);
      exclude_patterns = (case exclude_patterns of None \<Rightarrow> [] | Some v \<Rightarrow> v);
      include_patterns = (case include_patterns of None \<Rightarrow> [] | Some v \<Rightarrow> v);
      exclude_extensions = normalize_extensions lower exclude_extensions;
      compiled_exclude = compile_regex_patterns exclude_patterns use_regex;
      compiled_include = compile_regex_patterns include_patterns use_regex;
      (structure1, structure2, extensions) =
        compare_directory_structures get_directory_structure dir1 dir2 (Some exclude_dirs)
          ignore_file (Some exclude_extensions) (Some compiled_exclude) (Some compiled_include);
      color_map = (\<lambda>ext. if ext \<in> extensions then Some (generate_color_for_extension ext) else None);
      tree1 = Tree (Text ([128194, 32] @ basename dir1) (ascii ''bold'')) [];
      tree2 = Tree (Text ([128194, 32] @ basename dir2) (ascii ''bold'')) [];
      tree1 = build_comparison_tree sort_files_by_type lower structure1 structure2 tree1 color_map
        (ascii ''Root'');
      tree2 = build_comparison_tree sort_files_by_type lower structure2 structure1 tree2 color_map
        (ascii ''Root'');
      legend_text =
        [(ascii ''Legend: '', ascii ''bold''),
         (ascii ''Green background '', ascii ''on green''),
         (ascii ''= Only in left directory, '', []),
         (ascii ''Red background '', ascii ''on red''),
         (ascii ''= Only in right directory'', [])];
      pattern_type = (if use_regex then ascii ''Regex'' else ascii ''Glob'');
      pattern_info =
        (if exclude_patterns \<noteq> []
         then [pattern_type @ ascii '' exclusion patterns: '' @ join (ascii '', '') exclude_patterns]
         else []) @
        (if include_patterns \<noteq> []
         then [pattern_type @ ascii '' inclusion patterns: '' @ join (ascii '', '') include_patterns]
         else []);
      pattern_panel =
        (if pattern_info \<noteq> []
         then [Panel (Line (join [10] pattern_info)) (Some (ascii ''Applied Patterns'')) (ascii ''blue'')]
         else [])
     in
      pattern_panel @
      [Panel (Spans legend_text) None (ascii ''dim''),
       Columns
        [Panel (Diff tree1) (Some (ascii ''Directory 1: '' @ basename dir1)) (ascii ''blue''),
         Panel (Diff tree2) (Some (ascii ''Directory 2: '' @ basename dir2)) (ascii ''green'')]])"

section \<open>The renderers on a store of objects\<close>

text \<open>
  The functions above take a dictionary as a value. A Python call is given references,
  and what it does to the objects behind them is read off a second translation of the
  same source, where the arguments are addresses in a store of objects: the dictionary
  of a structure (its keys in insertion order, each with the reference to its value), a
  list of file names, the colour map, and a node of a \<open>rich\<close> tree with its label and the
  references to its children. Strings cannot be changed and stay values. An address is an
  index of the store, and a new object is put at the end of the store.
\<close>

type_synonym addr = nat

datatype obj =
    DictObj "(pystr \<times> addr) list"
  | ListObj "pystr list"
  | ColorsObj "(pystr \<times> pystr) list"
  | TreeObj label "addr list"

type_synonym store = "obj list"

type_synonym 'a action = "store \<Rightarrow> (error + 'a) \<times> store"

text \<open>
  A call runs on a store and gives the store after it, with the value it returns or the
  exception it raises. \<open>seq\<close> runs one step after another and stops at an exception,
  \<open>for_each\<close> is a \<open>for\<close> loop, and \<open>map_each\<close> is a loop that collects one result for
  each element.
\<close>

definition ret :: "'a \<Rightarrow> 'a action" where
  "ret x h = (Inr x, h)"

definition raise :: "error \<Rightarrow> 'a action" where
  "raise e h = (Inl e, h)"

definition seq :: "'a action \<Rightarrow> ('a \<Rightarrow> 'b action) \<Rightarrow> 'b action" where
  "seq m f h = (case m h of (Inl e, h') \<Rightarrow> (Inl e, h') | (Inr x, h') \<Rightarrow> f x h')"

primrec for_each :: "'a list \<Rightarrow> ('a \<Rightarrow> unit action) \<Rightarrow> unit action" where
  "for_each [] body = ret ()"
| "for_each (x # xs) body = seq (body x) (\<lambda>_. for_each xs body)"

primrec map_each :: "'a list \<Rightarrow> ('a \<Rightarrow> 'b action) \<Rightarrow> 'b list action" where
  "map_each [] body = ret []"
| "map_each (x # xs) body = seq (body x) (\<lambda>y. seq (map_each xs body) (\<lambda>ys. ret (y # ys)))"

text \<open>
  The operations of the renderers on an object. The values of a structure are lists and
  dictionaries, and the colour map takes strings to strings; applied to an object of a
  kind for which Python has no such operation, an operation raises (\<open>TypeError\<close> stands
  for \<open>AttributeError\<close> too). A reference always refers to an object of the store;
  \<open>deref\<close> raises on an address past the end of the store, which no reference is.
\<close>

definition deref :: "addr \<Rightarrow> obj action" where
  "deref a h = (if a < length h then (Inr (h ! a), h) else (Inl TypeError, h))"

text \<open>A literal \<open>{}\<close> or \<open>[]\<close>: a new object.\<close>

definition new :: "obj \<Rightarrow> addr action" where
  "new ob h = (Inr (length h), h @ [ob])"

text \<open>\<open>if x\<close>: a dictionary or a list is true when it is not empty, a tree node is true.\<close>

definition truth :: "addr \<Rightarrow> bool action" where
  "truth a =
    seq (deref a) (\<lambda>ob.
      case ob of
        DictObj kvs \<Rightarrow> ret (kvs \<noteq> [])
      | ListObj xs \<Rightarrow> ret (xs \<noteq> [])
      | ColorsObj m \<Rightarrow> ret (m \<noteq> [])
      | TreeObj l ch \<Rightarrow> ret True)"

text \<open>\<open>k in x\<close>: a key of a dictionary, an element of a list.\<close>

definition contains :: "addr \<Rightarrow> pystr \<Rightarrow> bool action" where
  "contains a k =
    seq (deref a) (\<lambda>ob.
      case ob of
        DictObj kvs \<Rightarrow> ret (k \<in> set (map fst kvs))
      | ListObj xs \<Rightarrow> ret (k \<in> set xs)
      | ColorsObj m \<Rightarrow> ret (k \<in> set (map fst m))
      | TreeObj l ch \<Rightarrow> raise TypeError)"

text \<open>\<open>d.items()\<close> and \<open>d.keys()\<close>, as the caller reads them at once.\<close>

definition dict_items :: "addr \<Rightarrow> (pystr \<times> addr) list action" where
  "dict_items a =
    seq (deref a) (\<lambda>ob. case ob of DictObj kvs \<Rightarrow> ret kvs | _ \<Rightarrow> raise TypeError)"

definition dict_keys :: "addr \<Rightarrow> pystr list action" where
  "dict_keys a =
    seq (deref a) (\<lambda>ob. case ob of DictObj kvs \<Rightarrow> ret (map fst kvs) | _ \<Rightarrow> raise TypeError)"

text \<open>\<open>d.get(k, default)\<close>, with the default already evaluated, and \<open>d[k]\<close>.\<close>

definition dict_get_ref :: "addr \<Rightarrow> pystr \<Rightarrow> addr \<Rightarrow> addr action" where
  "dict_get_ref a k d =
    seq (deref a) (\<lambda>ob.
      case ob of
        DictObj kvs \<Rightarrow> ret (case map_of kvs k of None \<Rightarrow> d | Some v \<Rightarrow> v)
      | _ \<Rightarrow> raise TypeError)"

definition subscript :: "addr \<Rightarrow> pystr \<Rightarrow> addr action" where
  "subscript a k =
    seq (deref a) (\<lambda>ob.
      case ob of
        DictObj kvs \<Rightarrow> (case map_of kvs k of None \<Rightarrow> raise (KeyError k) | Some v \<Rightarrow> ret v)
      | _ \<Rightarrow> raise TypeError)"

text \<open>The elements of a list, read by a \<open>for\<close> loop, \<open>len\<close> or \<open>enumerate\<close>.\<close>

definition list_values :: "addr \<Rightarrow> pystr list action" where
  "list_values a =
    seq (deref a) (\<lambda>ob. case ob of ListObj xs \<Rightarrow> ret xs | _ \<Rightarrow> raise TypeError)"

text \<open>\<open>color_map.get(ext, default)\<close>.\<close>

definition color_get :: "addr \<Rightarrow> pystr \<Rightarrow> pystr \<Rightarrow> pystr action" where
  "color_get a k d =
    seq (deref a) (\<lambda>ob. case ob of ColorsObj m \<Rightarrow> ret (dict_get (map_of m) k d) | _ \<Rightarrow> raise TypeError)"

text \<open>\<open>isinstance(x, dict)\<close>.\<close>

definition is_dict :: "addr \<Rightarrow> bool action" where
  "is_dict a =
    seq (deref a) (\<lambda>ob.
      case ob of DictObj kvs \<Rightarrow> ret True | ColorsObj m \<Rightarrow> ret True | _ \<Rightarrow> ret False)"

text \<open>
  \<open>tree.add(label)\<close>: a new node with that label and no child is put in the store, its
  reference is appended to the children of \<open>tree\<close>, and it is returned.
\<close>

definition tree_add :: "addr \<Rightarrow> label \<Rightarrow> addr action" where
  "tree_add t lbl =
    seq (deref t) (\<lambda>ob.
      case ob of
        TreeObj l ch \<Rightarrow>
          (\<lambda>h. (Inr (length h), h[t := TreeObj l (ch @ [length h])] @ [TreeObj lbl []]))
      | _ \<Rightarrow> raise TypeError)"

text \<open>
  \<open>build_comparison_tree\<close> (compare.py, lines 72 to 128) on the store. The arguments of
  \<open>.get\<close> are evaluated before the lookup, so its default \<open>[]\<close> or \<open>{}\<close> is a new object
  at every call. \<open>sort_files_by_type\<close> is given the reference of a list and returns the
  reference of a list; it is a parameter, and it may change the store. The loop over its
  result reads the list once: the body of the loop adds tree nodes only. The list that
  \<open>sorted\<close> returns is seen by this call alone and is a value. \<open>depth\<close> bounds the nesting
  of the calls, as the recursion limit of the interpreter does: a call at depth 0 raises
  \<open>RecursionError\<close>.
\<close>

primrec build_comparison_tree_st ::
  "nat \<Rightarrow> (addr \<Rightarrow> addr action) \<Rightarrow> (pystr \<Rightarrow> pystr) \<Rightarrow> addr \<Rightarrow> addr \<Rightarrow> addr \<Rightarrow> addr \<Rightarrow> pystr \<Rightarrow>
   unit action"
where
  "build_comparison_tree_st 0 sort_files_by_type lower structure other_structure tree color_map
      parent_name =
    raise RecursionError"
| "build_comparison_tree_st (Suc depth) sort_files_by_type lower structure other_structure tree
      color_map parent_name =
    seq (contains structure FILES) (\<lambda>has_files.
    seq (if has_files
         then
           seq (seq (truth other_structure) (\<lambda>b.
                  if b then seq (new (ListObj [])) (dict_get_ref other_structure FILES)
                  else new (ListObj []))) (\<lambda>files_in_other.
           seq (subscript structure FILES) (\<lambda>own.
           seq (sort_files_by_type own) (\<lambda>sorted_files.
           seq (list_values sorted_files) (\<lambda>files.
           for_each files (\<lambda>file.
             let ext = lower (snd (splitext file)) in
             seq (color_get color_map ext (ascii ''#FFFFFF'')) (\<lambda>color.
             seq (contains files_in_other file) (\<lambda>there.
             if \<not> there
             then seq (tree_add tree (Text (file_label file) (color @ ascii '' on green'')))
                    (\<lambda>_. ret ())
             else seq (tree_add tree (Text (file_label file) color)) (\<lambda>_. ret ()))))))))
         else ret ()) (\<lambda>_.
    seq (dict_items structure) (\<lambda>items.
    seq (for_each (sort_key fst items) (\<lambda>(folder, content).
           if folder \<noteq> FILES
           then
             seq (seq (truth other_structure) (\<lambda>b.
                    if b then seq (new (DictObj [])) (dict_get_ref other_structure folder)
                    else new (DictObj []))) (\<lambda>other_content.
             seq (seq (seq (truth other_structure) (\<lambda>b.
                         if b then ret other_structure else new (DictObj [])))
                    (\<lambda>d. contains d folder)) (\<lambda>there.
             seq (if \<not> there
                  then tree_add tree (Text (folder_label folder) (ascii ''green''))
                  else tree_add tree (Str (folder_label folder))) (\<lambda>subtree.
             build_comparison_tree_st depth sort_files_by_type lower content other_content subtree
               color_map folder)))
           else ret ())) (\<lambda>_.
    seq (seq (truth other_structure) (\<lambda>b.
           if b then contains other_structure FILES else ret False)) (\<lambda>other_has_files.
    seq (if other_has_files
         then
           seq (seq (new (ListObj [])) (dict_get_ref structure FILES)) (\<lambda>files_in_this.
           seq (subscript other_structure FILES) (\<lambda>theirs.
           seq (sort_files_by_type theirs) (\<lambda>sorted_files.
           seq (list_values sorted_files) (\<lambda>files.
           for_each files (\<lambda>file.
             seq (contains files_in_this file) (\<lambda>here.
             if \<not> here
             then
               (let ext = lower (snd (splitext file)) in
                seq (color_get color_map ext (ascii ''#FFFFFF'')) (\<lambda>color.
                seq (tree_add tree (Text (file_label file) (color @ ascii '' on red'')))
                  (\<lambda>_. ret ())))
             else ret ()))))))
         else ret ()) (\<lambda>_.
    seq (truth other_structure) (\<lambda>b.
    if b
    then
      seq (dict_keys other_structure) (\<lambda>ks.
      for_each (sort ks) (\<lambda>folder.
        seq (if folder \<noteq> FILES
             then seq (contains structure folder) (\<lambda>here. ret (\<not> here))
             else ret False) (\<lambda>only_there.
        if only_there
        then
          seq (tree_add tree (Text (folder_label folder) (ascii ''red''))) (\<lambda>subtree.
          seq (new (DictObj [])) (\<lambda>empty.
          seq (subscript other_structure folder) (\<lambda>theirs.
          build_comparison_tree_st depth sort_files_by_type lower empty theirs subtree color_map
            folder)))
        else ret ())))
    else ret ())))))))"

text \<open>
  \<open>_build_txt_tree\<close> (compare.py, lines 321 to 354) on the store. The list \<open>lines\<close> is
  made by the call and returned; it is a value, the lines of the folders followed by the
  lines of the files.
\<close>

primrec build_txt_tree_st ::
  "nat \<Rightarrow> (addr \<Rightarrow> addr action) \<Rightarrow> addr \<Rightarrow> pystr \<Rightarrow> bool \<Rightarrow> pystr list action"
where
  "build_txt_tree_st 0 sort_files_by_type structure prefix' is_last = raise RecursionError"
| "build_txt_tree_st (Suc depth) sort_files_by_type structure prefix' is_last =
    seq (dict_items structure) (\<lambda>kvs.
    let items = sort_key fst kvs in
    seq (map_each (enumerate 0 items) (\<lambda>(i, name, content).
           if name = FILES then ret []
           else
             seq (if int i = int (length items) - 1 then ret True
                  else if int i = int (length items) - 2 then contains structure FILES
                  else ret False) (\<lambda>is_last_item.
             let line =
                   (if is_last_item then prefix' @ [9492, 9472, 9472, 32, 128193, 32] @ name
                    else prefix' @ [9500, 9472, 9472, 32, 128193, 32] @ name);
                 new_prefix =
                   (if is_last_item then prefix' @ [32, 32, 32, 32] else prefix' @ [9474, 32, 32, 32])
             in
             seq (is_dict content) (\<lambda>dict.
             if dict
             then seq (build_txt_tree_st depth sort_files_by_type content new_prefix is_last_item)
                    (\<lambda>below. ret (line # below))
             else ret [line])))) (\<lambda>folder_lines.
    seq (contains structure FILES) (\<lambda>has_files.
    if has_files
    then
      seq (subscript structure FILES) (\<lambda>own.
      seq (sort_files_by_type own) (\<lambda>sorted_files.
      seq (list_values sorted_files) (\<lambda>files.
      ret (concat folder_lines @
           map (\<lambda>(i, file).
               if int i = int (length files) - 1
               then prefix' @ [9492, 9472, 9472, 32, 128196, 32] @ file
               else prefix' @ [9500, 9472, 9472, 32, 128196, 32] @ file)
             (enumerate 0 files)))))
    else ret (concat folder_lines))))"

text \<open>
  \<open>a == b\<close> on objects: two dictionaries are equal when they have as many keys and every
  key of the first is a key of the second, with the same object or an equal one as its
  value; two lists of names are equal as lists; tree nodes are equal when they are the
  same object. A dictionary of a structure and a colour map are dictionaries both and
  are equal when both are empty, since a string equals no list and no dictionary.
\<close>

primrec all_of :: "'a list \<Rightarrow> ('a \<Rightarrow> error + bool) \<Rightarrow> error + bool" where
  "all_of [] p = Inr True"
| "all_of (x # xs) p =
    (case p x of Inl e \<Rightarrow> Inl e | Inr b \<Rightarrow> if b then all_of xs p else Inr False)"

primrec equal_objects :: "nat \<Rightarrow> store \<Rightarrow> addr \<Rightarrow> addr \<Rightarrow> error + bool" where
  "equal_objects 0 h a b = Inl RecursionError"
| "equal_objects (Suc depth) h a b =
    (if a < length h \<and> b < length h
     then
       (case (h ! a, h ! b) of
         (DictObj kvs, DictObj kvs') \<Rightarrow>
           (if length kvs \<noteq> length kvs' then Inr False
            else all_of kvs (\<lambda>(k, v).
                   case map_of kvs' k of
                     None \<Rightarrow> Inr False
                   | Some v' \<Rightarrow> if v = v' then Inr True else equal_objects depth h v v'))
       | (DictObj kvs, ColorsObj m) \<Rightarrow> Inr (kvs = [] \<and> m = [])
       | (ColorsObj m, DictObj kvs) \<Rightarrow> Inr (m = [] \<and> kvs = [])
       | (ListObj xs, ListObj ys) \<Rightarrow> Inr (xs = ys)
       | (ColorsObj m, ColorsObj m') \<Rightarrow>
           Inr (length m = length m' \<and> list_all (\<lambda>(k, v). map_of m' k = Some v) m)
       | (TreeObj l ch, TreeObj l' ch') \<Rightarrow> Inr (a = b)
       | _ \<Rightarrow> Inr False)
     else Inl TypeError)"

definition equals :: "nat \<Rightarrow> addr \<Rightarrow> addr \<Rightarrow> bool action" where
  "equals depth a b h = (equal_objects depth h a b, h)"

text \<open>
  \<open>_build_html_tree\<close> (compare.py, lines 406 to 447) on the store, a closure over
  \<open>comparison_data\<close>, whose two structures are references here.
\<close>

primrec build_html_tree_st ::
  "nat \<Rightarrow> (addr \<Rightarrow> addr action) \<Rightarrow> addr comparison_data \<Rightarrow> addr \<Rightarrow> bool \<Rightarrow> pystr action"
where
  "build_html_tree_st 0 sort_files_by_type comparison_data structure include_differences =
    raise RecursionError"
| \<open>build_html_tree_st (Suc depth) sort_files_by_type comparison_data structure include_differences =
    seq (dict_items structure) (\<lambda>kvs.
    seq (map_each (sort_key fst kvs) (\<lambda>(name, content).
           if name \<noteq> FILES
           then
             seq (if include_differences
                  then
                    seq (seq (equals (Suc depth) structure (dir_structure (cd_dir1 comparison_data)))
                           (\<lambda>same. ret (if same then dir_structure (cd_dir2 comparison_data)
                                       else dir_structure (cd_dir1 comparison_data))))
                      (\<lambda>other_structure.
                    seq (contains other_structure name) (\<lambda>there.
                    ret (if \<not> there then ascii '' class="directory-unique"'' else [])))
                  else ret []) (\<lambda>dir_class.
             seq (build_html_tree_st depth sort_files_by_type comparison_data content
                    include_differences) (\<lambda>below.
             ret [ascii ''<li'' @ dir_class @ ascii ''><span class="directory">'' @ [128193, 32] @
                    html_escape name @ ascii ''</span>'',
                  below,
                  ascii ''</li>'']))
           else ret [])) (\<lambda>folder_parts.
    seq (contains structure FILES) (\<lambda>has_files.
    seq (if has_files
         then
           seq (subscript structure FILES) (\<lambda>own.
           seq (sort_files_by_type own) (\<lambda>sorted_files.
           seq (list_values sorted_files) (\<lambda>files.
           map_each files (\<lambda>file.
             seq (if include_differences
                  then
                    seq (seq (equals (Suc depth) structure (dir_structure (cd_dir1 comparison_data)))
                           (\<lambda>same. ret (if same then dir_structure (cd_dir2 comparison_data)
                                       else dir_structure (cd_dir1 comparison_data))))
                      (\<lambda>other_structure.
                    seq (seq (new (ListObj [])) (dict_get_ref other_structure FILES))
                      (\<lambda>other_files.
                    seq (contains other_files file) (\<lambda>there.
                    ret (if \<not> there then ascii '' class="file-unique"'' else []))))
                  else ret []) (\<lambda>file_class.
             ret (ascii ''<li'' @ file_class @ ascii ''><span class="file">'' @ [128196, 32] @
                    html_escape file @ ascii ''</span></li>''))))))
         else ret []) (\<lambda>file_parts.
    ret (join [10] ([ascii ''<ul>''] @ concat folder_parts @ file_parts @ [ascii ''</ul>'']))))))\<close>

text \<open>
  \<open>_export_comparison_to_txt\<close> and \<open>_export_comparison_to_html\<close> on the store: the two
  trees are built, the left one first, and the page is written; an exception leaves the
  file system as it was.
\<close>

definition export_comparison_to_txt_st ::
  "nat \<Rightarrow> (addr \<Rightarrow> addr action) \<Rightarrow> addr comparison_data \<Rightarrow> pystr \<Rightarrow> filesystem \<Rightarrow>
   store \<Rightarrow> (filesystem \<times> error option) \<times> store"
where
  "export_comparison_to_txt_st depth sort_files_by_type comparison_data output_path fs h =
    (case
       seq (build_txt_tree_st depth sort_files_by_type (dir_structure (cd_dir1 comparison_data)) [] True)
         (\<lambda>dir1_tree.
       seq (build_txt_tree_st depth sort_files_by_type (dir_structure (cd_dir2 comparison_data)) [] True)
         (\<lambda>dir2_tree.
       ret (txt_layout dir1_tree dir2_tree comparison_data))) h
     of
       (Inl e, h') \<Rightarrow> ((fs, Some e), h')
     | (Inr lines, h') \<Rightarrow> (write_text fs output_path (join [10] lines), h'))"

definition export_comparison_to_html_st ::
  "nat \<Rightarrow> (addr \<Rightarrow> addr action) \<Rightarrow> addr comparison_data \<Rightarrow> pystr \<Rightarrow> filesystem \<Rightarrow>
   store \<Rightarrow> (filesystem \<times> error option) \<times> store"
where
  "export_comparison_to_html_st depth sort_files_by_type comparison_data output_path fs h =
    (case
       seq (build_html_tree_st depth sort_files_by_type comparison_data
              (dir_structure (cd_dir1 comparison_data)) True)
         (\<lambda>dir1_tree.
       seq (build_html_tree_st depth sort_files_by_type comparison_data
              (dir_structure (cd_dir2 comparison_data)) True)
         (\<lambda>dir2_tree.
       ret (html_page dir1_tree dir2_tree comparison_data))) h
     of
       (Inl e, h') \<Rightarrow> ((fs, Some e), h')
     | (Inr page, h') \<Rightarrow> (write_text fs output_path page, h'))"

section \<open>Reading the outputs\<close>

text \<open>
  An entry of a comparison is a file or a folder at a relative path: the names of the
  folders from the root down, the kind, the name. A mark is what the diff tree says of an
  entry.
\<close>

datatype kind = File | Folder

datatype mark = OnlyHere | OnlyThere | Common

type_synonym entry = "pystr list \<times> kind \<times> pystr"

text \<open>
  The text and the style of a label; a bare string has no style.
\<close>

definition label_text :: "label \<Rightarrow> pystr" where
  "label_text l = (case l of Styled p s \<Rightarrow> p | Str p \<Rightarrow> p)"

definition label_style :: "label \<Rightarrow> pystr" where
  "label_style l = (case l of Styled p s \<Rightarrow> s | Str p \<Rightarrow> [])"

text \<open>
  The glyph at the start of a label tells a file from a folder; the name follows the
  glyph and a space.
\<close>

definition label_kind :: "label \<Rightarrow> kind option" where
  "label_kind l =
    (if take 2 (label_text l) = [128196, 32] then Some File
     else if take 2 (label_text l) = [128193, 32] then Some Folder
     else None)"

definition label_name :: "label \<Rightarrow> pystr" where
  "label_name l = drop 2 (label_text l)"

text \<open>
  The highlight of a node, as the legend of \<open>display_comparison\<close> reads it. A file only
  on this side has the background \<open>on green\<close>, a file only on the other side the
  background \<open>on red\<close>; a folder only on this side is written in \<open>green\<close>, a folder only
  on the other side in \<open>red\<close>; every other node is common.
\<close>

definition label_mark :: "label \<Rightarrow> mark" where
  "label_mark l =
    (if label_kind l = Some Folder
     then (if label_style l = ascii ''green'' then OnlyHere
           else if label_style l = ascii ''red'' then OnlyThere
           else Common)
     else (if suffix (ascii '' on green'') (label_style l) then OnlyHere
           else if suffix (ascii '' on red'') (label_style l) then OnlyThere
           else Common))"

text \<open>
  A name that \<open>Text\<close> shows as it is: it has none of the control codes that \<open>Text\<close>
  removes. A structure has plain names when every name of a file or of a folder in it, at
  every depth, is such a name.
\<close>

definition clean_name :: "pystr \<Rightarrow> bool" where
  "clean_name n = (strip_control_codes n = n)"

fun plain_names :: "structure \<Rightarrow> bool" where
  "plain_names (Structure fs sd) =
    (list_all clean_name (case fs of None \<Rightarrow> [] | Some xs \<Rightarrow> xs) \<and>
     list_all (\<lambda>(k, c). clean_name k \<and> plain_names c) sd)"

text \<open>
  The nodes below the root of a tree, each with the path of the folder nodes above it.
\<close>

fun rendered :: "pystr list \<Rightarrow> tree \<Rightarrow> (pystr list \<times> label) list" where
  "rendered path (Tree l cs) =
    concat (map (\<lambda>c.
        (path, label c) #
        (if label_kind (label c) = Some Folder then rendered (path @ [label_name (label c)]) c else []))
      cs)"

text \<open>
  The labels of all the nodes below the root of a tree.
\<close>

fun nodes :: "tree \<Rightarrow> label list" where
  "nodes (Tree l cs) = concat (map (\<lambda>c. label c # nodes c) cs)"

text \<open>
  The entries a tree shows, each with its mark.
\<close>

definition classified :: "pystr list \<Rightarrow> tree \<Rightarrow> (entry \<times> mark) list" where
  "classified path t =
    concat (map (\<lambda>(q, l).
        case label_kind l of None \<Rightarrow> [] | Some k \<Rightarrow> [((q, k, label_name l), label_mark l)])
      (rendered path t))"

text \<open>
  The directory of a structure at a relative path, and the names of the files or of the
  folders directly in it (none when the path does not exist).
\<close>

fun descend :: "structure \<Rightarrow> pystr list \<Rightarrow> structure option" where
  "descend s [] = Some s"
| "descend s (d # p) = (case map_of (subdirs s) d of None \<Rightarrow> None | Some c \<Rightarrow> descend c p)"

definition names_at :: "structure \<Rightarrow> pystr list \<Rightarrow> kind \<Rightarrow> pystr set" where
  "names_at s p k =
    (case descend s p of
      None \<Rightarrow> {}
    | Some c \<Rightarrow> (case k of File \<Rightarrow> set (get_files c) | Folder \<Rightarrow> set (map fst (subdirs c))))"

text \<open>
  The mark of an entry, from the sides that have it.
\<close>

definition verdict :: "bool \<Rightarrow> bool \<Rightarrow> mark" where
  "verdict here there = (if here then (if there then Common else OnlyHere) else OnlyThere)"

text \<open>
  The colour of a file: \<open>color_map.get(ext, "#FFFFFF")\<close> for its lowercased extension.
\<close>

definition color_of :: "(pystr \<rightharpoonup> pystr) \<Rightarrow> (pystr \<Rightarrow> pystr) \<Rightarrow> pystr \<Rightarrow> pystr" where
  "color_of color_map lower file = dict_get color_map (lower (snd (splitext file))) (ascii ''#FFFFFF'')"

text \<open>
  The label of an entry in the diff tree, from the sides that have it.
\<close>

definition node_label ::
  "(pystr \<rightharpoonup> pystr) \<Rightarrow> (pystr \<Rightarrow> pystr) \<Rightarrow> kind \<Rightarrow> pystr \<Rightarrow> bool \<Rightarrow> bool \<Rightarrow> label" where
  "node_label color_map lower k n here there =
    (case k of
      File \<Rightarrow>
        Text (file_label n)
          (color_of color_map lower n @
            (if here then (if there then [] else ascii '' on green'') else ascii '' on red''))
    | Folder \<Rightarrow>
        (if here then (if there then Str (folder_label n) else Text (folder_label n) (ascii ''green''))
         else Text (folder_label n) (ascii ''red'')))"

text \<open>
  The nodes of the diff tree of a structure against another one: one node for every
  entry of either side.
\<close>

definition expected ::
  "(pystr \<rightharpoonup> pystr) \<Rightarrow> (pystr \<Rightarrow> pystr) \<Rightarrow> structure \<Rightarrow> structure \<Rightarrow> (pystr list \<times> label) set" where
  "expected cm lw s other =
    {(q, node_label cm lw k n (n \<in> names_at s q k) (n \<in> names_at other q k)) | q k n.
       n \<in> names_at s q k \<or> n \<in> names_at other q k}"

text \<open>
  The same nodes, below a path.
\<close>

definition under :: "pystr list \<Rightarrow> (pystr list \<times> 'a) set \<Rightarrow> (pystr list \<times> 'a) set" where
  "under p E = (\<lambda>(q, x). (p @ q, x)) ` E"

text \<open>
  The colours of a colour map are single words: colour names or \<open>#RRGGBB\<close>, as
  \<open>generate_color_for_extension\<close> gives them.
\<close>

definition plain_colors :: "(pystr \<rightharpoonup> pystr) \<Rightarrow> bool" where
  "plain_colors color_map = (\<forall>c \<in> ran color_map. 32 \<notin> set c)"

text \<open>
  The nodes of the diff tree directly below the root, and the nodes a child of a tree
  contributes.
\<close>

definition top_level ::
  "(pystr \<rightharpoonup> pystr) \<Rightarrow> (pystr \<Rightarrow> pystr) \<Rightarrow> structure \<Rightarrow> structure \<Rightarrow> (pystr list \<times> label) set" where
  "top_level cm lw s other =
    {([], node_label cm lw k n (n \<in> names_at s [] k) (n \<in> names_at other [] k)) | k n.
       n \<in> names_at s [] k \<or> n \<in> names_at other [] k}"

definition child_nodes :: "pystr list \<Rightarrow> tree \<Rightarrow> (pystr list \<times> label) list" where
  "child_nodes path c =
     (path, label c) #
     (if label_kind (label c) = Some Folder then rendered (path @ [label_name (label c)]) c else [])"

text \<open>
  The entries a diff tree marks only-here, and those it marks only-there.
\<close>

definition only_here :: "tree \<Rightarrow> entry set" where
  "only_here t = {e. (e, OnlyHere) \<in> set (classified [] t)}"

definition only_there :: "tree \<Rightarrow> entry set" where
  "only_there t = {e. (e, OnlyThere) \<in> set (classified [] t)}"

text \<open>
  The number of entries of a structure: its files and its folders, at every depth.
\<close>

fun entry_count :: "structure \<Rightarrow> nat" where
  "entry_count (Structure fs sd) =
    length (case fs of None \<Rightarrow> [] | Some xs \<Rightarrow> xs) + sum_list (map (\<lambda>(k, c). Suc (entry_count c)) sd)"

text \<open>
  The lines of one side in the text export, the root line first, and the line of a
  column at an index (empty past the end).
\<close>

definition side_lines :: "(pystr list \<Rightarrow> pystr list) \<Rightarrow> structure side \<Rightarrow> pystr list" where
  "side_lines sf side = ([128194, 32] @ dir_name side) # build_txt_tree sf (dir_structure side) [] True"

definition column :: "pystr list \<Rightarrow> nat \<Rightarrow> pystr" where
  "column lines i = (if i < length lines then lines ! i else [])"

text \<open>
  What a run leaves of the objects it was given. A store is \<open>unchanged\<close> by a run when
  the run has removed no object and every object that is not a tree node (a dictionary, a
  list, the colour map) is after the run what it was before; a step is \<open>framing\<close> when it
  leaves every store unchanged in this sense. \<open>holds h a s\<close> says that the dictionary at
  address \<open>a\<close> of the store \<open>h\<close> is the structure \<open>s\<close>: the same keys, the list of
  \<open>s\<close> under \<open>"_files"\<close>, and under every other key a dictionary that is the subdirectory
  of \<open>s\<close> of that name.
\<close>

definition is_tree :: "obj \<Rightarrow> bool" where
  "is_tree ob = (case ob of TreeObj l ch \<Rightarrow> True | _ \<Rightarrow> False)"

definition unchanged :: "store \<Rightarrow> store \<Rightarrow> bool" where
  "unchanged h h' = (length h \<le> length h' \<and> (\<forall>a<length h. \<not> is_tree (h ! a) \<longrightarrow> h' ! a = h ! a))"

definition framing :: "'a action \<Rightarrow> bool" where
  "framing m = (\<forall>h. unchanged h (snd (m h)))"

fun holds :: "store \<Rightarrow> addr \<Rightarrow> structure \<Rightarrow> bool" where
  "holds h a (Structure fs sd) =
    (a < length h \<and>
     (case h ! a of
       DictObj kvs \<Rightarrow>
         distinct (map fst kvs) \<and>
         set (map fst kvs) = set (keys (Structure fs sd)) \<and>
         (case fs of
           None \<Rightarrow> True
         | Some xs \<Rightarrow>
             (case map_of kvs FILES of
               None \<Rightarrow> False
             | Some b \<Rightarrow> b < length h \<and> h ! b = ListObj xs)) \<and>
         list_all (\<lambda>(k, c). case map_of kvs k of None \<Rightarrow> False | Some b \<Rightarrow> holds h b c) sd
     | _ \<Rightarrow> False))"

section \<open>Example inputs\<close>

text \<open>
  Modelled from the spec: \<open>sort_files_by_type\<close> of \<open>recursivist.core\<close> is not among the
  sources; the spec describes it as a stable order by file type, then by name. The
  theorems below hold for every function that returns a permutation of its argument;
  this instance is used in the examples.
\<close>

definition by_type_then_name :: "pystr list \<Rightarrow> pystr list" where
  "by_type_then_name fs = sort_key (\<lambda>f. snd (splitext f)) (sort fs)"

text \<open>
  The two sides of the spec's scenario A: the left root has \<open>src/a.py\<close> and \<open>src/b.py\<close>,
  the right root has \<open>src/a.py\<close> and \<open>src/c.py\<close>.
\<close>

definition scenario_left :: "structure" where
  "scenario_left = Structure None [(ascii ''src'', Structure (Some [ascii ''a.py'', ascii ''b.py'']) [])]"

definition scenario_right :: "structure" where
  "scenario_right = Structure None [(ascii ''src'', Structure (Some [ascii ''a.py'', ascii ''c.py'']) [])]"

definition scenario_colors :: "pystr \<rightharpoonup> pystr" where
  "scenario_colors = [ascii ''.py'' \<mapsto> ascii ''#3572A5'']"

text \<open>
  Two sides whose only files differ in a carriage return: the left root has the file
  \<open>a\rb.py\<close>, the right root has the file \<open>ab.py\<close>.
\<close>

definition cr_left :: "structure" where
  "cr_left = Structure (Some [[97, 13, 98, 46, 112, 121]]) []"

definition cr_right :: "structure" where
  "cr_right = Structure (Some [ascii ''ab.py'']) []"

text \<open>
  The comparison data of scenario A, an empty file system where every path can be written,
  a walk that finds nothing and a pattern compiler that keeps the patterns as they are.
\<close>

definition scenario_data :: "structure comparison_data" where
  "scenario_data =
    \<lparr>cd_dir1 = \<lparr>dir_path = ascii ''left'', dir_name = ascii ''left'', dir_structure = scenario_left\<rparr>,
     cd_dir2 = \<lparr>dir_path = ascii ''right'', dir_name = ascii ''right'', dir_structure = scenario_right\<rparr>,
     cd_metadata =
       \<lparr>md_exclude_patterns = [], md_include_patterns = [], md_pattern_type = ascii ''glob''\<rparr>\<rparr>"

definition no_files :: filesystem where
  "no_files = \<lparr>contents = Map.empty, writable = (\<lambda>path. True)\<rparr>"

definition nothing_there :: "pystr walker" where
  "nothing_there root exclude_dirs ignore_file exclude_extensions exclude_patterns include_patterns =
    (empty_dict, {})"

definition keep_patterns :: "pystr list \<Rightarrow> bool \<Rightarrow> pystr list" where
  "keep_patterns patterns use_regex = patterns"

text \<open>
  The left pane of the HTML export of scenario A, as the code builds it: the list of the
  folder \<open>src\<close> with its two files, both with the class \<open>file-unique\<close>.
\<close>

definition scenario_src_pane :: pystr where
  \<open>scenario_src_pane =
    join [10]
      [ascii ''<ul>'',
       ascii ''<li class="file-unique"><span class="file">'' @ [128196, 32] @ ascii ''a.py</span></li>'',
       ascii ''<li class="file-unique"><span class="file">'' @ [128196, 32] @ ascii ''b.py</span></li>'',
       ascii ''</ul>'']\<close>

definition scenario_left_pane :: pystr where
  \<open>scenario_left_pane =
    join [10]
      [ascii ''<ul>'',
       ascii ''<li><span class="directory">'' @ [128193, 32] @ ascii ''src</span>'',
       scenario_src_pane,
       ascii ''</li>'',
       ascii ''</ul>'']\<close>

text \<open>
  Modelled from the spec: \<open>sort_files_by_type\<close> on the store reads the list it is given
  and returns a new list, in the order of \<open>by_type_then_name\<close>. Scenario A in a store: the
  two structures at the addresses 0 and 3, the colour map at 6 and the root node of a tree
  at 7.
\<close>

definition sort_files_by_type_st :: "addr \<Rightarrow> addr action" where
  "sort_files_by_type_st a = seq (list_values a) (\<lambda>xs. new (ListObj (by_type_then_name xs)))"

definition scenario_store :: store where
  "scenario_store =
    [DictObj [(ascii ''src'', 1)],
     DictObj [(FILES, 2)],
     ListObj [ascii ''a.py'', ascii ''b.py''],
     DictObj [(ascii ''src'', 4)],
     DictObj [(FILES, 5)],
     ListObj [ascii ''a.py'', ascii ''c.py''],
     ColorsObj [(ascii ''.py'', ascii ''#3572A5'')],
     TreeObj (Str (ascii ''root'')) []]"

definition scenario_refs :: "addr comparison_data" where
  "scenario_refs =
    \<lparr>cd_dir1 = \<lparr>dir_path = ascii ''left'', dir_name = ascii ''left'', dir_structure = 0\<rparr>,
     cd_dir2 = \<lparr>dir_path = ascii ''right'', dir_name = ascii ''right'', dir_structure = 3\<rparr>,
     cd_metadata =
       \<lparr>md_exclude_patterns = [], md_include_patterns = [], md_pattern_type = ascii ''glob''\<rparr>\<rparr>"

section \<open>Lemmas\<close>

text \<open>
  The main lemma is \<open>build_rendered\<close>: the nodes that \<open>build_comparison_tree\<close> adds to a
  tree are the nodes of \<open>expected\<close>, one for every entry of either side, by induction on
  the size of the two structures. The lines of the text tree are counted in
  \<open>build_txt_tree_length\<close>.
\<close>

lemma names_at_empty: "names_at empty_dict q k = {}"
  by (cases q) (auto simp: names_at_def empty_dict_def get_files_def split: kind.splits)

lemma names_at_Cons: "names_at s (d # q) k = names_at (get_folder s d) q k"
proof (cases "map_of (subdirs s) d")
  case None
  then show ?thesis
    by (simp add: names_at_def [of s] get_folder_def names_at_empty)
next
  case (Some c)
  then show ?thesis
    by (simp add: names_at_def get_folder_def)
qed

lemma names_at_Nil:
  "names_at s [] k = (case k of File \<Rightarrow> set (get_files s) | Folder \<Rightarrow> set (map fst (subdirs s)))"
  by (simp add: names_at_def)

lemma in_expected:
  "(q, l) \<in> expected cm lw s other \<longleftrightarrow>
     (\<exists>k n. (n \<in> names_at s q k \<or> n \<in> names_at other q k) \<and>
        l = node_label cm lw k n (n \<in> names_at s q k) (n \<in> names_at other q k))"
  by (auto simp: expected_def)

lemma in_under: "(q', x) \<in> under p E \<longleftrightarrow> (\<exists>q. q' = p @ q \<and> (q, x) \<in> E)"
  by (force simp: under_def)

lemma expected_empty: "expected cm lw empty_dict empty_dict = {}"
  by (auto simp: expected_def names_at_empty)

lemma in_top_level:
  "(q, l) \<in> top_level cm lw s other \<longleftrightarrow>
     q = [] \<and> (\<exists>k n. (n \<in> names_at s [] k \<or> n \<in> names_at other [] k) \<and>
        l = node_label cm lw k n (n \<in> names_at s [] k) (n \<in> names_at other [] k))"
  by (auto simp: top_level_def)

lemma expected_unfold:
  "expected cm lw s other =
     top_level cm lw s other \<union>
     (\<Union>d. under [d] (expected cm lw (get_folder s d) (get_folder other d)))"
  (is "?L = ?R")
proof (rule set_eqI)
  fix x :: "pystr list \<times> label"
  obtain q l where x: "x = (q, l)"
    by (cases x)
  show "x \<in> ?L \<longleftrightarrow> x \<in> ?R"
  proof (cases q)
    case Nil
    then show ?thesis
      unfolding x by (simp add: in_expected in_top_level in_under)
  next
    case (Cons d q')
    then show ?thesis
      unfolding x by (simp add: in_expected in_top_level in_under names_at_Cons)
  qed
qed

lemma rendered_children:
  "set (rendered p t) = (\<Union>c \<in> set (children t). set (child_nodes p c))"
  by (cases t) (simp add: child_nodes_def)

lemma label_build [simp]:
  "label (build_comparison_tree sf lw s other t cm pn) = label t"
  by (subst build_comparison_tree.simps) (simp add: Let_def)

lemma label_Text [simp]:
  "label_text (Text x st) = strip_control_codes x"
  "label_style (Text x st) = st"
  "label_text (Str x) = x"
  "label_style (Str x) = []"
  by (simp_all add: Text_def label_text_def label_style_def)

lemma file_label_kind [simp]:
  "label_kind (Text (file_label f) st) = Some File"
  "label_name (Text (file_label f) st) = strip_control_codes f"
  by (simp_all add: label_kind_def label_name_def strip_control_codes_def file_label_def)

lemma folder_label_kind [simp]:
  "label_kind (Text (folder_label d) st) = Some Folder"
  "label_name (Text (folder_label d) st) = strip_control_codes d"
  "label_kind (Str (folder_label d)) = Some Folder"
  "label_name (Str (folder_label d)) = d"
  by (simp_all add: label_kind_def label_name_def strip_control_codes_def folder_label_def)

lemma node_label_kind [simp]:
  "label_kind (node_label cm lw k n here there) = Some k"
  by (cases k) (simp_all add: node_label_def)

lemma node_label_name [simp]:
  "clean_name n \<Longrightarrow> label_name (node_label cm lw k n here there) = n"
  by (cases k) (simp_all add: node_label_def clean_name_def)

lemma plain_names_subdir:
  "plain_names s \<Longrightarrow> (d, c) \<in> set (subdirs s) \<Longrightarrow> clean_name d"
  "plain_names s \<Longrightarrow> (d, c) \<in> set (subdirs s) \<Longrightarrow> plain_names c"
  by (cases s; auto simp: list_all_iff)+

lemma plain_names_empty [simp]: "plain_names empty_dict"
  by (simp add: empty_dict_def)

lemma plain_names_get_folder: "plain_names s \<Longrightarrow> plain_names (get_folder s d)"
  by (auto simp: get_folder_def split: option.splits dest: map_of_SomeD plain_names_subdir(2))

lemma plain_names_key: "plain_names s \<Longrightarrow> d \<in> fst ` set (subdirs s) \<Longrightarrow> clean_name d"
  by (auto dest: plain_names_subdir(1))

lemma plain_names_file: "plain_names s \<Longrightarrow> f \<in> set (get_files s) \<Longrightarrow> clean_name f"
  by (cases s) (auto simp: get_files_def list_all_iff split: option.splits)

lemma under_Un: "under p (A \<union> B) = under p A \<union> under p B"
  by (simp add: under_def image_Un)

lemma under_UN: "under p (\<Union>d. F d) = (\<Union>d. under p (F d))"
  by (simp add: under_def image_UN)

lemma under_under: "under p (under q E) = under (p @ q) E"
  by (force simp: under_def)

lemma under_empty [simp]: "under p {} = {}"
  by (simp add: under_def)

lemma well_formed_subdir:
  "well_formed s \<Longrightarrow> (d, c) \<in> set (subdirs s) \<Longrightarrow> well_formed c"
  by (cases s) (auto simp: list_all_iff)

lemma well_formed_empty [simp]: "well_formed empty_dict"
  by (simp add: empty_dict_def)

lemma well_formed_get_folder: "well_formed s \<Longrightarrow> well_formed (get_folder s d)"
  by (auto simp: get_folder_def split: option.splits dest: map_of_SomeD well_formed_subdir)

lemma well_formed_keys:
  "well_formed s \<Longrightarrow> distinct (map fst (subdirs s))"
  "well_formed s \<Longrightarrow> FILES \<notin> fst ` set (subdirs s)"
  by (cases s; simp)+

lemma get_folder_subdir:
  "well_formed s \<Longrightarrow> (d, c) \<in> set (subdirs s) \<Longrightarrow> get_folder s d = c"
  by (simp add: get_folder_def well_formed_keys(1))

lemma get_folder_absent:
  "d \<notin> fst ` set (subdirs s) \<Longrightarrow> get_folder s d = empty_dict"
  by (simp add: get_folder_def map_of_eq_None_iff [THEN iffD2])

lemma not_truthy: "\<not> truthy s \<Longrightarrow> s = empty_dict"
  by (cases s) (simp add: truthy_def empty_dict_def)

lemma truthy_simps [simp]:
  "(if truthy other then get_files other else []) = get_files other"
  "(if truthy other then get_folder other d else empty_dict) = get_folder other d"
  "(if truthy other then other else empty_dict) = other"
  by (auto dest!: not_truthy simp: get_files_def get_folder_def empty_dict_def)

lemma has_key_FILES: "has_key s FILES \<longleftrightarrow> files s \<noteq> None"
  by (simp add: has_key_def)

lemma has_key_folder: "d \<noteq> FILES \<Longrightarrow> has_key s d \<longleftrightarrow> d \<in> fst ` set (subdirs s)"
  by (simp add: has_key_def)

lemma children_build:
  "children (build_comparison_tree sf lw s other t cm pn) =
     children t @
     (case files s of None \<Rightarrow> []
      | Some fs \<Rightarrow>
          map (\<lambda>file.
              if file \<notin> set (get_files other)
              then Tree (Text (file_label file)
                     (dict_get cm (lw (snd (splitext file))) (ascii ''#FFFFFF'') @ ascii '' on green'')) []
              else Tree (Text (file_label file)
                     (dict_get cm (lw (snd (splitext file))) (ascii ''#FFFFFF''))) [])
            (sf fs)) @
     map (\<lambda>(folder, content).
         build_comparison_tree sf lw content (get_folder other folder)
           (if \<not> has_key other folder
            then Tree (Text (folder_label folder) (ascii ''green'')) []
            else Tree (Str (folder_label folder)) [])
           cm folder)
       (filter (\<lambda>(folder, content). folder \<noteq> FILES) (sort_key fst (subdirs s))) @
     (if has_key other FILES
      then map (\<lambda>file.
             Tree (Text (file_label file)
               (dict_get cm (lw (snd (splitext file))) (ascii ''#FFFFFF'') @ ascii '' on red'')) [])
           (filter (\<lambda>file. file \<notin> set (get_files s)) (sf (get_files other)))
      else []) @
     map (\<lambda>folder.
         build_comparison_tree sf lw empty_dict (get_folder other folder)
           (Tree (Text (folder_label folder) (ascii ''red'')) []) cm folder)
       (filter (\<lambda>folder. folder \<noteq> FILES \<and> \<not> has_key s folder) (sort (keys other)))"
proof (cases "truthy other")
  case True
  then show ?thesis
    by (subst build_comparison_tree.simps) (simp add: Let_def cong: option.case_cong)
next
  case False
  then have "other = empty_dict"
    by (rule not_truthy)
  then show ?thesis
    by (subst build_comparison_tree.simps)
      (simp add: Let_def truthy_def empty_dict_def has_key_def keys_def get_files_def
        get_folder_def cong: option.case_cong)
qed

lemma set_sorted_subdirs:
  "well_formed s \<Longrightarrow>
     set (filter (\<lambda>(folder, content). folder \<noteq> FILES) (sort_key fst (subdirs s))) = set (subdirs s)"
  by (auto dest: well_formed_keys(2) simp: rev_image_eqI)

lemma set_other_keys:
  "well_formed s \<Longrightarrow>
     set (filter (\<lambda>folder. folder \<noteq> FILES \<and> \<not> has_key s folder) (sort (keys other))) =
       fst ` set (subdirs other) - {FILES} - fst ` set (subdirs s)"
  by (auto simp: keys_def has_key_def split: option.splits)

lemma UN_support:
  assumes "\<And>d. d \<notin> A \<Longrightarrow> d \<notin> B \<Longrightarrow> F d = {}"
  shows "(\<Union>d. F d) = (\<Union>d \<in> A. F d) \<union> (\<Union>d \<in> B - A. F d)"
proof (rule set_eqI)
  fix x
  show "x \<in> (\<Union>d. F d) \<longleftrightarrow> x \<in> (\<Union>d \<in> A. F d) \<union> (\<Union>d \<in> B - A. F d)"
  proof
    assume "x \<in> (\<Union>d. F d)"
    then obtain d where d: "x \<in> F d"
      by blast
    with assms have "d \<in> A \<or> d \<in> B"
      by fastforce
    with d show "x \<in> (\<Union>d \<in> A. F d) \<union> (\<Union>d \<in> B - A. F d)"
      by blast
  next
    assume "x \<in> (\<Union>d \<in> A. F d) \<union> (\<Union>d \<in> B - A. F d)"
    then show "x \<in> (\<Union>d. F d)"
      by blast
  qed
qed

lemma regroup:
  "FA \<union> (\<Union>d \<in> A. G d \<union> S d) \<union> FC \<union> (\<Union>d \<in> B. H d \<union> S d) =
   (FA \<union> FC) \<union> ((\<Union>d \<in> A. G d) \<union> (\<Union>d \<in> B. H d)) \<union>
   ((\<Union>d \<in> A. S d) \<union> (\<Union>d \<in> B. S d))"
  by blast

lemma merge_nodes:
  fixes N :: "'a \<Rightarrow> bool \<Rightarrow> bool \<Rightarrow> 'b"
  shows "{(p, N f True (f \<in> B)) | f. f \<in> A} \<union> {(p, N f False True) | f. f \<in> B \<and> f \<notin> A} =
    {(p, N f (f \<in> A) (f \<in> B)) | f. f \<in> A \<or> f \<in> B}"
  (is "?L = ?R")
proof (rule set_eqI)
  fix x
  show "x \<in> ?L \<longleftrightarrow> x \<in> ?R"
  proof
    assume "x \<in> ?L"
    then consider f where "f \<in> A" "x = (p, N f True (f \<in> B))"
      | f where "f \<in> B" "f \<notin> A" "x = (p, N f False True)"
      by blast
    then show "x \<in> ?R"
    proof cases
      case 1
      then have "x = (p, N f (f \<in> A) (f \<in> B))" "f \<in> A \<or> f \<in> B"
        by simp_all
      then show ?thesis
        by blast
    next
      case 2
      then have "x = (p, N f (f \<in> A) (f \<in> B))" "f \<in> A \<or> f \<in> B"
        by simp_all
      then show ?thesis
        by blast
    qed
  next
    assume "x \<in> ?R"
    then obtain f where f: "f \<in> A \<or> f \<in> B" "x = (p, N f (f \<in> A) (f \<in> B))"
      by blast
    show "x \<in> ?L"
    proof (cases "f \<in> A")
      case True
      with f have "x = (p, N f True (f \<in> B))"
        by simp
      with True show ?thesis
        by blast
    next
      case False
      with f have "x = (p, N f False True)" "f \<in> B"
        by simp_all
      with False show ?thesis
        by blast
    qed
  qed
qed

lemma merge_folder_nodes:
  fixes N :: "'a \<Rightarrow> bool \<Rightarrow> bool \<Rightarrow> 'b"
  shows "(\<Union>d \<in> A. {(p, N d True (d \<in> B))}) \<union> (\<Union>d \<in> B - A. {(p, N d False True)}) =
    {(p, N d (d \<in> A) (d \<in> B)) | d. d \<in> A \<or> d \<in> B}"
proof -
  have "(\<Union>d \<in> A. {(p, N d True (d \<in> B))}) = {(p, N d True (d \<in> B)) | d. d \<in> A}"
    by blast
  moreover have "(\<Union>d \<in> B - A. {(p, N d False True)}) = {(p, N d False True) | d. d \<in> B \<and> d \<notin> A}"
    by blast
  ultimately show ?thesis
    by (simp only: merge_nodes)
qed

lemma top_level_kinds:
  "top_level cm lw s other =
    {([], node_label cm lw File f (f \<in> set (get_files s)) (f \<in> set (get_files other))) | f.
       f \<in> set (get_files s) \<or> f \<in> set (get_files other)} \<union>
    {([], node_label cm lw Folder d (d \<in> fst ` set (subdirs s)) (d \<in> fst ` set (subdirs other))) | d.
       d \<in> fst ` set (subdirs s) \<or> d \<in> fst ` set (subdirs other)}"
  (is "_ = ?F \<union> ?G")
proof (rule set_eqI)
  fix x :: "pystr list \<times> label"
  show "x \<in> top_level cm lw s other \<longleftrightarrow> x \<in> ?F \<union> ?G"
  proof
    assume "x \<in> top_level cm lw s other"
    then obtain k n where n: "n \<in> names_at s [] k \<or> n \<in> names_at other [] k"
      and x: "x = ([], node_label cm lw k n (n \<in> names_at s [] k) (n \<in> names_at other [] k))"
      by (auto simp: top_level_def)
    show "x \<in> ?F \<union> ?G"
    proof (cases k)
      case File
      with n x have "\<exists>f. x = ([], node_label cm lw File f (f \<in> set (get_files s))
          (f \<in> set (get_files other))) \<and> (f \<in> set (get_files s) \<or> f \<in> set (get_files other))"
        by (intro exI [of _ n]) (simp add: names_at_Nil)
      then show ?thesis
        by blast
    next
      case Folder
      with n x have "\<exists>d. x = ([], node_label cm lw Folder d (d \<in> fst ` set (subdirs s))
          (d \<in> fst ` set (subdirs other))) \<and>
          (d \<in> fst ` set (subdirs s) \<or> d \<in> fst ` set (subdirs other))"
        by (intro exI [of _ n]) (simp add: names_at_Nil)
      then show ?thesis
        by blast
    qed
  next
    assume "x \<in> ?F \<union> ?G"
    then consider "x \<in> ?F" | "x \<in> ?G"
      by blast
    then show "x \<in> top_level cm lw s other"
    proof cases
      case 1
      then obtain f where "f \<in> names_at s [] File \<or> f \<in> names_at other [] File"
        "x = ([], node_label cm lw File f (f \<in> names_at s [] File) (f \<in> names_at other [] File))"
        by (auto simp: names_at_Nil)
      then show ?thesis
        unfolding top_level_def by blast
    next
      case 2
      then obtain d where "d \<in> names_at s [] Folder \<or> d \<in> names_at other [] Folder"
        "x = ([], node_label cm lw Folder d (d \<in> names_at s [] Folder) (d \<in> names_at other [] Folder))"
        by (auto simp: names_at_Nil)
      then show ?thesis
        unfolding top_level_def by blast
    qed
  qed
qed

lemma under_comprehension: "under p {([], N x) | x. P x} = {(p, N x) | x. P x}"
  by (force simp: under_def)

lemma build_rendered:
  assumes perm: "\<And>fs. set (sf fs) = set fs"
  shows "well_formed s \<Longrightarrow> well_formed other \<Longrightarrow> plain_names s \<Longrightarrow> plain_names other \<Longrightarrow>
     set (rendered p (build_comparison_tree sf lw s other t cm pn)) =
       set (rendered p t) \<union> under p (expected cm lw s other)"
proof (induction "size s + size other" arbitrary: s other t p pn rule: less_induct)
  case less
  note wf_s = \<open>well_formed s\<close> and wf_o = \<open>well_formed other\<close>
  note pl_s = \<open>plain_names s\<close> and pl_o = \<open>plain_names other\<close>
  have IH: "set (rendered p' (build_comparison_tree sf lw s' o' t' cm pn')) =
       set (rendered p' t') \<union> under p' (expected cm lw s' o')"
    if "size s' + size o' < size s + size other" "well_formed s'" "well_formed o'"
      "plain_names s'" "plain_names o'"
    for s' o' t' p' pn'
    using less.hyps that by blast
  let ?fs = "set (get_files s)" and ?fo = "set (get_files other)"
  let ?ds = "fst ` set (subdirs s)" and ?do = "fst ` set (subdirs other)"
  let ?sub = "\<lambda>d. under (p @ [d]) (expected cm lw (get_folder s d) (get_folder other d))"
  let ?color = "\<lambda>file. dict_get cm (lw (snd (splitext file))) (ascii ''#FFFFFF'')"
  let ?own = "\<lambda>folder content.
      build_comparison_tree sf lw content (get_folder other folder)
        (if \<not> has_key other folder
         then Tree (Text (folder_label folder) (ascii ''green'')) []
         else Tree (Str (folder_label folder)) [])
        cm folder"
  let ?foreign = "\<lambda>folder.
      build_comparison_tree sf lw empty_dict (get_folder other folder)
        (Tree (Text (folder_label folder) (ascii ''red'')) []) cm folder"
  have fileso: "FILES \<notin> ?do"
    using wf_o by (rule well_formed_keys(2))
  \<comment> \<open>a folder of this side\<close>
  have own: "set (child_nodes p (?own d c)) =
      {(p, node_label cm lw Folder d True (d \<in> ?do))} \<union> ?sub d"
    if dc: "(d, c) \<in> set (subdirs s)" for d c
  proof -
    let ?st = "if \<not> has_key other d then Tree (Text (folder_label d) (ascii ''green'')) []
         else Tree (Str (folder_label d)) []"
    have d: "d \<noteq> FILES"
      using wf_s dc by (auto dest: well_formed_keys(2) simp: rev_image_eqI)
    have lab: "label (?own d c) = node_label cm lw Folder d True (d \<in> ?do)"
      using d by (simp add: node_label_def has_key_folder)
    have "size c + size (get_folder other d) < size s + size other"
      using size_subdir [OF dc] size_get_folder [of other d] by simp
    then have "set (rendered (p @ [d]) (?own d c)) =
        set (rendered (p @ [d]) ?st) \<union> under (p @ [d]) (expected cm lw c (get_folder other d))"
      using wf_s wf_o pl_s pl_o dc
      by (intro IH)
        (auto intro: well_formed_subdir well_formed_get_folder plain_names_subdir(2)
          plain_names_get_folder)
    moreover have "set (rendered (p @ [d]) ?st) = {}"
      by simp
    moreover have "get_folder s d = c"
      using wf_s dc by (rule get_folder_subdir)
    moreover have "clean_name d"
      using pl_s dc by (rule plain_names_subdir(1))
    ultimately show ?thesis
      unfolding child_nodes_def lab by simp
  qed
  \<comment> \<open>a folder of the other side only\<close>
  have foreign: "set (child_nodes p (?foreign d)) =
      {(p, node_label cm lw Folder d False True)} \<union> ?sub d"
    if d: "d \<in> ?do" "d \<notin> ?ds" for d
  proof -
    let ?st = "Tree (Text (folder_label d) (ascii ''red'')) []"
    have lab: "label (?foreign d) = node_label cm lw Folder d False True"
      by (simp add: node_label_def)
    have "d \<in> set (keys other)"
      using d(1) by (auto simp: keys_def)
    moreover have "d \<noteq> FILES"
      using d(1) fileso by blast
    ultimately have "size (get_folder other d) < size other"
      by (rule size_key_folder)
    moreover have "size empty_dict \<le> size s"
      using size_structure_pos [of s] by (simp add: empty_dict_def)
    ultimately have "size empty_dict + size (get_folder other d) < size s + size other"
      by simp
    then have "set (rendered (p @ [d]) (?foreign d)) =
        set (rendered (p @ [d]) ?st) \<union>
        under (p @ [d]) (expected cm lw empty_dict (get_folder other d))"
      using wf_o pl_o by (intro IH) (auto intro: well_formed_get_folder plain_names_get_folder)
    moreover have "get_folder s d = empty_dict"
      using d(2) by (rule get_folder_absent)
    moreover have "clean_name d"
      using pl_o d(1) by (rule plain_names_key)
    ultimately show ?thesis
      unfolding child_nodes_def lab by simp
  qed
  have EA: "(\<Union>c \<in> set (case files s of None \<Rightarrow> []
        | Some fs \<Rightarrow>
            map (\<lambda>file.
                if file \<notin> set (get_files other)
                then Tree (Text (file_label file) (?color file @ ascii '' on green'')) []
                else Tree (Text (file_label file) (?color file)) [])
              (sf fs)). set (child_nodes p c)) =
      {(p, node_label cm lw File f True (f \<in> ?fo)) | f. f \<in> ?fs}"
    by (cases "files s")
      (auto simp: get_files_def [of s] perm child_nodes_def node_label_def color_of_def)
  have EC: "(\<Union>c \<in> set (if has_key other FILES
        then map (\<lambda>file. Tree (Text (file_label file) (?color file @ ascii '' on red'')) [])
             (filter (\<lambda>file. file \<notin> set (get_files s)) (sf (get_files other)))
        else []). set (child_nodes p c)) =
      {(p, node_label cm lw File f False True) | f. f \<in> ?fo \<and> f \<notin> ?fs}"
    by (cases "files other")
      (auto simp: has_key_FILES get_files_def [of other] perm child_nodes_def node_label_def
        color_of_def)
  have "(\<Union>c \<in> set (map (\<lambda>(folder, content). ?own folder content)
        (filter (\<lambda>(folder, content). folder \<noteq> FILES) (sort_key fst (subdirs s)))).
        set (child_nodes p c)) =
      (\<Union>x \<in> set (subdirs s). set (child_nodes p (?own (fst x) (snd x))))"
    unfolding set_map set_sorted_subdirs [OF wf_s] by (simp add: case_prod_beta)
  also have "\<dots> =
      (\<Union>x \<in> set (subdirs s). {(p, node_label cm lw Folder (fst x) True (fst x \<in> ?do))} \<union> ?sub (fst x))"
  proof (rule SUP_cong [OF refl])
    fix x
    assume "x \<in> set (subdirs s)"
    then have "(fst x, snd x) \<in> set (subdirs s)"
      by simp
    then show "set (child_nodes p (?own (fst x) (snd x))) =
        {(p, node_label cm lw Folder (fst x) True (fst x \<in> ?do))} \<union> ?sub (fst x)"
      by (rule own)
  qed
  also have "\<dots> = (\<Union>d \<in> ?ds. {(p, node_label cm lw Folder d True (d \<in> ?do))} \<union> ?sub d)"
    by (simp only: UN_simps image_image)
  finally have EB: "(\<Union>c \<in> set (map (\<lambda>(folder, content). ?own folder content)
        (filter (\<lambda>(folder, content). folder \<noteq> FILES) (sort_key fst (subdirs s)))).
        set (child_nodes p c)) =
      (\<Union>d \<in> ?ds. {(p, node_label cm lw Folder d True (d \<in> ?do))} \<union> ?sub d)" .
  have "?do - {FILES} - ?ds = ?do - ?ds"
    using fileso by blast
  then have "(\<Union>c \<in> set (map ?foreign
        (filter (\<lambda>folder. folder \<noteq> FILES \<and> \<not> has_key s folder) (sort (keys other)))).
        set (child_nodes p c)) =
      (\<Union>d \<in> ?do - ?ds. set (child_nodes p (?foreign d)))"
    unfolding set_map set_other_keys [OF wf_s] by (simp only: UN_simps image_image)
  also have "\<dots> = (\<Union>d \<in> ?do - ?ds. {(p, node_label cm lw Folder d False True)} \<union> ?sub d)"
  proof (rule SUP_cong [OF refl])
    fix d
    assume "d \<in> ?do - ?ds"
    then have "d \<in> ?do" and "d \<notin> ?ds"
      by simp_all
    then show "set (child_nodes p (?foreign d)) =
        {(p, node_label cm lw Folder d False True)} \<union> ?sub d"
      by (rule foreign)
  qed
  finally have ED: "(\<Union>c \<in> set (map ?foreign
        (filter (\<lambda>folder. folder \<noteq> FILES \<and> \<not> has_key s folder) (sort (keys other)))).
        set (child_nodes p c)) =
      (\<Union>d \<in> ?do - ?ds. {(p, node_label cm lw Folder d False True)} \<union> ?sub d)" .
  have outside: "?sub d = {}" if "d \<notin> ?ds" "d \<notin> ?do" for d
    using that by (simp add: get_folder_absent expected_empty)
  have top: "under p (top_level cm lw s other) =
      {(p, node_label cm lw File f (f \<in> ?fs) (f \<in> ?fo)) | f. f \<in> ?fs \<or> f \<in> ?fo} \<union>
      {(p, node_label cm lw Folder d (d \<in> ?ds) (d \<in> ?do)) | d. d \<in> ?ds \<or> d \<in> ?do}"
    unfolding top_level_kinds under_Un
    by (simp only: under_comprehension
        [where N = "\<lambda>f. node_label cm lw File f (f \<in> ?fs) (f \<in> ?fo)"]
      under_comprehension
        [where N = "\<lambda>d. node_label cm lw Folder d (d \<in> ?ds) (d \<in> ?do)"])
  have "set (rendered p (build_comparison_tree sf lw s other t cm pn)) = set (rendered p t) \<union>
      ({(p, node_label cm lw File f True (f \<in> ?fo)) | f. f \<in> ?fs} \<union>
       (\<Union>d \<in> ?ds. {(p, node_label cm lw Folder d True (d \<in> ?do))} \<union> ?sub d) \<union>
       {(p, node_label cm lw File f False True) | f. f \<in> ?fo \<and> f \<notin> ?fs} \<union>
       (\<Union>d \<in> ?do - ?ds. {(p, node_label cm lw Folder d False True)} \<union> ?sub d))"
    unfolding rendered_children [of p "build_comparison_tree sf lw s other t cm pn"]
      children_build set_append UN_Un EA EB EC ED
    by (simp add: rendered_children Un_assoc)
  also have "\<dots> = set (rendered p t) \<union> under p (expected cm lw s other)"
  proof -
    define SUB where "SUB = ?sub"
    have out: "SUB d = {}" if "d \<notin> ?ds" "d \<notin> ?do" for d
      using outside [OF that] by (simp add: SUB_def)
    have subs: "(\<Union>d. SUB d) = (\<Union>d \<in> ?ds. SUB d) \<union> (\<Union>d \<in> ?do - ?ds. SUB d)"
      using out by (rule UN_support)
    have "{(p, node_label cm lw File f True (f \<in> ?fo)) | f. f \<in> ?fs} \<union>
       (\<Union>d \<in> ?ds. {(p, node_label cm lw Folder d True (d \<in> ?do))} \<union> SUB d) \<union>
       {(p, node_label cm lw File f False True) | f. f \<in> ?fo \<and> f \<notin> ?fs} \<union>
       (\<Union>d \<in> ?do - ?ds. {(p, node_label cm lw Folder d False True)} \<union> SUB d) =
       ({(p, node_label cm lw File f True (f \<in> ?fo)) | f. f \<in> ?fs} \<union>
        {(p, node_label cm lw File f False True) | f. f \<in> ?fo \<and> f \<notin> ?fs}) \<union>
       ((\<Union>d \<in> ?ds. {(p, node_label cm lw Folder d True (d \<in> ?do))}) \<union>
        (\<Union>d \<in> ?do - ?ds. {(p, node_label cm lw Folder d False True)})) \<union>
       ((\<Union>d \<in> ?ds. SUB d) \<union> (\<Union>d \<in> ?do - ?ds. SUB d))"
      by (rule regroup)
    also have "\<dots> = under p (top_level cm lw s other) \<union> (\<Union>d. SUB d)"
      by (simp only: merge_nodes merge_folder_nodes subs top)
    finally show ?thesis
      unfolding expected_unfold [of cm lw s other] under_Un under_UN under_under
      by (simp only: SUB_def append_Cons append_Nil)
  qed
  finally show ?case .
qed

lemma in_classified:
  "(e, m) \<in> set (classified p t) \<longleftrightarrow>
     (\<exists>q l k. (q, l) \<in> set (rendered p t) \<and> label_kind l = Some k \<and>
        e = (q, k, label_name l) \<and> m = label_mark l)"
  by (force simp: classified_def split: option.splits)

lemma not_suffix_space:
  assumes "32 \<notin> set c"
  shows "\<not> suffix (ascii '' on green'') c" and "\<not> suffix (ascii '' on red'') c"
proof -
  have "32 \<in> set (ascii '' on green'')" and "32 \<in> set (ascii '' on red'')"
    by (simp_all add: ascii_def)
  with assms show "\<not> suffix (ascii '' on green'') c" and "\<not> suffix (ascii '' on red'') c"
    by (auto dest: set_mono_suffix)
qed

lemma suffix_marks [simp]:
  "suffix (ascii '' on green'') (c @ ascii '' on green'')"
  "\<not> suffix (ascii '' on green'') (c @ ascii '' on red'')"
  "suffix (ascii '' on red'') (c @ ascii '' on red'')"
  by (auto simp: suffix_def ascii_def)

lemma color_plain:
  assumes "plain_colors cm"
  shows "32 \<notin> set (color_of cm lw file)"
proof (cases "cm (lw (snd (splitext file)))")
  case None
  then show ?thesis
    by (simp add: color_of_def dict_get_def ascii_def)
next
  case (Some c)
  then have "c \<in> ran cm"
    by (auto simp: ran_def)
  with assms Some show ?thesis
    by (simp add: color_of_def dict_get_def plain_colors_def)
qed

lemma mark_node_label:
  assumes "plain_colors cm \<or> \<not> (here \<and> there)"
  shows "label_mark (node_label cm lw k n here there) = verdict here there"
proof (cases k)
  case File
  have "\<not> suffix (ascii '' on green'') (color_of cm lw n)" "\<not> suffix (ascii '' on red'') (color_of cm lw n)"
    if "plain_colors cm"
    using color_plain [OF that] by (auto dest: not_suffix_space)
  with assms File show ?thesis
    by (auto simp: label_mark_def node_label_def verdict_def)
next
  case Folder
  then show ?thesis
    by (auto simp: label_mark_def node_label_def verdict_def ascii_def)
qed

lemma under_Nil [simp]: "under [] E = E"
  by (force simp: under_def)

lemma names_at_clean:
  "plain_names s \<Longrightarrow> n \<in> names_at s q k \<Longrightarrow> clean_name n"
proof (induction q arbitrary: s)
  case Nil
  then show ?case
    by (cases k) (auto simp: names_at_Nil intro: plain_names_file plain_names_key)
next
  case (Cons d q)
  from Cons.prems(2) have "n \<in> names_at (get_folder s d) q k"
    by (simp add: names_at_Cons)
  with Cons.prems(1) show ?case
    by (intro Cons.IH [of "get_folder s d"]) (auto intro: plain_names_get_folder)
qed

lemma rendered_fresh:
  assumes "\<And>fs. set (sf fs) = set fs" "well_formed s" "well_formed other"
    and "plain_names s" "plain_names other"
  shows "set (rendered [] (build_comparison_tree sf lw s other (Tree l []) cm pn)) =
    expected cm lw s other"
  using build_rendered [OF assms, of "[]" lw "Tree l []" cm pn] by simp

lemma classified_fresh:
  assumes "\<And>fs. set (sf fs) = set fs" "well_formed s" "well_formed other"
    and "plain_names s" "plain_names other"
  shows "((q, k, n), m) \<in> set (classified [] (build_comparison_tree sf lw s other (Tree l []) cm pn)) \<longleftrightarrow>
    (n \<in> names_at s q k \<or> n \<in> names_at other q k) \<and>
    m = label_mark (node_label cm lw k n (n \<in> names_at s q k) (n \<in> names_at other q k))"
  (is "?L \<longleftrightarrow> ?R")
proof
  assume ?L
  then obtain l where l: "(q, l) \<in> expected cm lw s other" "label_kind l = Some k"
    "n = label_name l" "m = label_mark l"
    unfolding in_classified rendered_fresh [OF assms] by auto
  from l(1) obtain k' n' where n': "n' \<in> names_at s q k' \<or> n' \<in> names_at other q k'"
    "l = node_label cm lw k' n' (n' \<in> names_at s q k') (n' \<in> names_at other q k')"
    unfolding in_expected by blast
  from n'(1) assms(4,5) have "clean_name n'"
    by (auto intro: names_at_clean)
  with l n' show ?R
    by simp
next
  assume r: ?R
  let ?l = "node_label cm lw k n (n \<in> names_at s q k) (n \<in> names_at other q k)"
  from r have "(q, ?l) \<in> expected cm lw s other"
    unfolding in_expected by blast
  moreover from r assms(4,5) have "clean_name n"
    by (auto intro: names_at_clean)
  then have "label_kind ?l = Some k" "label_name ?l = n"
    by simp_all
  ultimately have "\<exists>qa l ka. (qa, l) \<in> expected cm lw s other \<and> label_kind l = Some ka \<and>
      (q, k, n) = (qa, ka, label_name l) \<and> m = label_mark l"
    using r by (intro exI [of _ q] exI [of _ ?l] exI [of _ k]) simp
  then show ?L
    unfolding in_classified rendered_fresh [OF assms] .
qed

lemma classified_verdict:
  assumes "\<And>fs. set (sf fs) = set fs" "well_formed s" "well_formed other"
    and "plain_names s" "plain_names other" "plain_colors cm"
  shows "((q, k, n), m) \<in> set (classified [] (build_comparison_tree sf lw s other (Tree l []) cm pn)) \<longleftrightarrow>
    (n \<in> names_at s q k \<or> n \<in> names_at other q k) \<and>
    m = verdict (n \<in> names_at s q k) (n \<in> names_at other q k)"
  unfolding classified_fresh [OF assms(1-5)] using assms(6) by (simp add: mark_node_label)

lemma set_by_type_then_name [simp]: "set (by_type_then_name fs) = set fs"
  by (simp add: by_type_then_name_def)

lemma well_formed_scenario [simp]: "well_formed scenario_left" "well_formed scenario_right"
  by (simp_all add: scenario_left_def scenario_right_def FILES_def ascii_def)

lemma plain_names_scenario [simp]: "plain_names scenario_left" "plain_names scenario_right"
  by (simp_all add: scenario_left_def scenario_right_def clean_name_def strip_control_codes_def
      ascii_def)

lemma plain_scenario_colors [simp]: "plain_colors scenario_colors"
  by (simp add: plain_colors_def scenario_colors_def ascii_def)

lemma names_at_scenario:
  "names_at scenario_left [ascii ''src''] File = {ascii ''a.py'', ascii ''b.py''}"
  "names_at scenario_right [ascii ''src''] File = {ascii ''a.py'', ascii ''c.py''}"
  by (simp_all add: names_at_def scenario_left_def scenario_right_def get_files_def)

lemma classified_one_sided:
  assumes "\<And>fs. set (sf fs) = set fs" "well_formed s" "well_formed other"
    and "plain_names s" "plain_names other"
    and "s = empty_dict \<or> other = empty_dict"
  shows "((q, k, n), m) \<in> set (classified [] (build_comparison_tree sf lw s other (Tree l []) cm pn)) \<longleftrightarrow>
    (n \<in> names_at s q k \<or> n \<in> names_at other q k) \<and>
    m = verdict (n \<in> names_at s q k) (n \<in> names_at other q k)"
proof -
  from assms(6) have "\<not> (n \<in> names_at s q k \<and> n \<in> names_at other q k)"
    by (auto simp: names_at_empty)
  then have "label_mark (node_label cm lw k n (n \<in> names_at s q k) (n \<in> names_at other q k)) =
      verdict (n \<in> names_at s q k) (n \<in> names_at other q k)"
    by (rule mark_node_label [OF disjI2])
  then show ?thesis
    unfolding classified_fresh [OF assms(1-5)] by (simp only:)
qed

lemma nodes_children:
  "set (nodes t) = (\<Union>c \<in> set (children t). insert (label c) (set (nodes c)))"
  by (cases t) auto

lemma node_of_child: "c \<in> set (children t) \<Longrightarrow> label c \<in> set (nodes t)"
  unfolding nodes_children [of t] by blast

lemma node_below_child: "c \<in> set (children t) \<Longrightarrow> l \<in> set (nodes c) \<Longrightarrow> l \<in> set (nodes t)"
  unfolding nodes_children [of t] by blast

lemma file_node_built:
  assumes perm: "\<And>fs. set (sf fs) = set fs"
  shows "well_formed s \<Longrightarrow> well_formed other \<Longrightarrow>
     f \<in> names_at s q File \<union> names_at other q File \<Longrightarrow>
     node_label cm lw File f (f \<in> names_at s q File) (f \<in> names_at other q File)
       \<in> set (nodes (build_comparison_tree sf lw s other t cm pn))"
proof (induction q arbitrary: s other t pn)
  case Nil
  let ?color = "dict_get cm (lw (snd (splitext f))) (ascii ''#FFFFFF'')"
  let ?T = "build_comparison_tree sf lw s other t cm pn"
  show ?case
  proof (cases "f \<in> set (get_files s)")
    case True
    then obtain fs where fs: "files s = Some fs" "f \<in> set fs"
      by (cases "files s") (auto simp: get_files_def)
    let ?c = "if f \<notin> set (get_files other)
        then Tree (Text (file_label f) (?color @ ascii '' on green'')) []
        else Tree (Text (file_label f) ?color) []"
    have "f \<in> set (sf fs)"
      using fs(2) by (simp add: perm)
    then have "?c \<in> set (children ?T)"
      unfolding children_build set_append fs(1) option.case set_map
      by (intro UnI2 [of _ _ "set (children t)"] UnI1 image_eqI [of _ _ f]) simp_all
    moreover have "label ?c =
        node_label cm lw File f (f \<in> names_at s [] File) (f \<in> names_at other [] File)"
      using True by (simp add: names_at_Nil node_label_def color_of_def)
    ultimately show ?thesis
      using node_of_child [of ?c ?T] by simp
  next
    case False
    with Nil.prems(3) have other: "f \<in> set (get_files other)"
      by (simp add: names_at_Nil)
    then have key: "has_key other FILES"
      by (cases "files other") (auto simp: has_key_FILES get_files_def)
    let ?c = "Tree (Text (file_label f) (?color @ ascii '' on red'')) []"
    have "f \<in> set (filter (\<lambda>file. file \<notin> set (get_files s)) (sf (get_files other)))"
      using other False by (simp add: perm)
    then have "?c \<in> set (children ?T)"
      unfolding children_build set_append if_P [OF key] set_map
      by (intro UnI2 [of _ _ "set (children t)"] UnI2 [of _ _ "set (case_option _ _ _)"]
          UnI2 [of _ _ "_ ` set (filter _ (sort_key fst _))"] UnI1 image_eqI [of _ _ f]) simp_all
    moreover have "label ?c =
        node_label cm lw File f (f \<in> names_at s [] File) (f \<in> names_at other [] File)"
      using False other by (simp add: names_at_Nil node_label_def color_of_def)
    ultimately show ?thesis
      using node_of_child [of ?c ?T] by simp
  qed
next
  case (Cons d q)
  let ?T = "build_comparison_tree sf lw s other t cm pn"
  let ?l = "node_label cm lw File f (f \<in> names_at s (d # q) File) (f \<in> names_at other (d # q) File)"
  have inner: "f \<in> names_at (get_folder s d) q File \<union> names_at (get_folder other d) q File"
    using Cons.prems(3) by (simp add: names_at_Cons)
  have l: "?l = node_label cm lw File f (f \<in> names_at (get_folder s d) q File)
      (f \<in> names_at (get_folder other d) q File)"
    by (simp add: names_at_Cons)
  have below: "?l \<in> set (nodes ?T)" if "c \<in> set (children ?T)" "?l \<in> set (nodes c)" for c
    using that by (rule node_below_child)
  show ?case
  proof (cases "d \<in> fst ` set (subdirs s)")
    case True
    then obtain c where dc: "(d, c) \<in> set (subdirs s)"
      by auto
    then have c: "get_folder s d = c" "well_formed c"
      using Cons.prems(1) by (auto intro: get_folder_subdir well_formed_subdir)
    let ?st = "if \<not> has_key other d then Tree (Text (folder_label d) (ascii ''green'')) []
        else Tree (Str (folder_label d)) []"
    let ?c = "build_comparison_tree sf lw c (get_folder other d) ?st cm d"
    have "(d, c) \<in> set (filter (\<lambda>(folder, content). folder \<noteq> FILES) (sort_key fst (subdirs s)))"
      using dc unfolding set_sorted_subdirs [OF Cons.prems(1)] .
    then have "?c \<in> set (children ?T)"
      unfolding children_build set_append set_map
      by (intro UnI2 [of _ _ "set (children t)"] UnI2 [of _ _ "set (case_option _ _ _)"]
          UnI1 image_eqI [of _ _ "(d, c)"]) simp_all
    moreover have "?l \<in> set (nodes ?c)"
      unfolding l c(1)
      using inner c Cons.prems(2)
      by (intro Cons.IH) (auto intro: well_formed_get_folder)
    ultimately show ?thesis
      by (rule below)
  next
    case False
    then have s: "get_folder s d = empty_dict"
      by (rule get_folder_absent)
    with inner have f: "f \<in> names_at (get_folder other d) q File"
      by (simp add: names_at_empty)
    have there: "d \<in> fst ` set (subdirs other)"
    proof (rule ccontr)
      assume "d \<notin> fst ` set (subdirs other)"
      then have "get_folder other d = empty_dict"
        by (rule get_folder_absent)
      with f show False
        by (simp add: names_at_empty)
    qed
    have "FILES \<notin> fst ` set (subdirs other)"
      using Cons.prems(2) by (rule well_formed_keys(2))
    with there have "d \<in> fst ` set (subdirs other) - {FILES} - fst ` set (subdirs s)"
      using False by blast
    then have "d \<in> set (filter (\<lambda>folder. folder \<noteq> FILES \<and> \<not> has_key s folder)
        (sort (keys other)))"
      unfolding set_other_keys [OF Cons.prems(1)] .
    let ?c = "build_comparison_tree sf lw empty_dict (get_folder other d)
        (Tree (Text (folder_label d) (ascii ''red'')) []) cm d"
    from \<open>d \<in> set (filter _ _)\<close> have "?c \<in> set (children ?T)"
      unfolding children_build set_append set_map
      by (intro UnI2 image_eqI [of _ _ d]) simp_all
    moreover have "?l \<in> set (nodes ?c)"
      unfolding l s
      using inner s Cons.prems(2)
      by (intro Cons.IH) (auto intro: well_formed_get_folder)
    ultimately show ?thesis
      by (rule below)
  qed
qed

lemma by_type_single [simp]: "by_type_then_name [x] = [x]"
  by (simp add: by_type_then_name_def)

lemma color_py:
  "dict_get scenario_colors (lower_latin1 (snd (splitext [97, 13, 98, 46, 112, 121])))
      (ascii ''#FFFFFF'') = ascii ''#3572A5''"
  "dict_get scenario_colors (lower_latin1 (snd (splitext (ascii ''ab.py''))))
      (ascii ''#FFFFFF'') = ascii ''#3572A5''"
proof -
  have "snd (splitext [97, 13, 98, 46, 112, 121]) = ascii ''.py''"
    "snd (splitext (ascii ''ab.py'')) = ascii ''.py''"
    by (simp_all add: splitext_def rfind_def ascii_def) (auto intro!: bexI [of _ 0])
  then show
    "dict_get scenario_colors (lower_latin1 (snd (splitext [97, 13, 98, 46, 112, 121])))
      (ascii ''#FFFFFF'') = ascii ''#3572A5''"
    "dict_get scenario_colors (lower_latin1 (snd (splitext (ascii ''ab.py''))))
      (ascii ''#FFFFFF'') = ascii ''#3572A5''"
    by (simp_all add: dict_get_def scenario_colors_def lower_latin1_def lower_cp_def ascii_def)
qed

lemma children_cr_left:
  "children (build_comparison_tree by_type_then_name lower_latin1 cr_left cr_right t
      scenario_colors pn) =
    children t @
    [Tree (Text (file_label [97, 13, 98, 46, 112, 121]) (ascii ''#3572A5'' @ ascii '' on green'')) [],
     Tree (Text (file_label (ascii ''ab.py'')) (ascii ''#3572A5'' @ ascii '' on red'')) []]"
  unfolding children_build
  by (simp add: cr_left_def cr_right_def has_key_def keys_def get_files_def color_py)
    (simp add: ascii_def)

lemma children_cr_right:
  "children (build_comparison_tree by_type_then_name lower_latin1 cr_right cr_left t
      scenario_colors pn) =
    children t @
    [Tree (Text (file_label (ascii ''ab.py'')) (ascii ''#3572A5'' @ ascii '' on green'')) [],
     Tree (Text (file_label [97, 13, 98, 46, 112, 121]) (ascii ''#3572A5'' @ ascii '' on red'')) []]"
  unfolding children_build
  by (simp add: cr_left_def cr_right_def has_key_def keys_def get_files_def color_py)
    (simp add: ascii_def)

lemma children_cr_alone:
  "children (build_comparison_tree by_type_then_name lower_latin1 cr_left empty_dict t
      scenario_colors pn) =
    children t @
    [Tree (Text (file_label [97, 13, 98, 46, 112, 121]) (ascii ''#3572A5'' @ ascii '' on green'')) []]"
  unfolding children_build
  by (simp add: cr_left_def empty_dict_def has_key_def keys_def get_files_def color_py)

lemma classified_leaves:
  assumes "children t = cs" and "\<And>c. c \<in> set cs \<Longrightarrow> label_kind (label c) = Some File"
  shows "set (classified p t) = (\<lambda>c. ((p, File, label_name (label c)), label_mark (label c))) ` set cs"
proof -
  have "set (rendered p t) = (\<lambda>c. (p, label c)) ` set cs"
    using assms by (auto simp: rendered_children child_nodes_def)
  then show ?thesis
    using assms(2) by (auto simp: classified_def image_iff)
qed

lemma strip_cr [simp]: "strip_control_codes [97, 13, 98, 46, 112, 121] = ascii ''ab.py''"
  "strip_control_codes (ascii ''ab.py'') = ascii ''ab.py''"
  by (simp_all add: strip_control_codes_def ascii_def)

lemma mark_file_label [simp]:
  "label_mark (Text (file_label f) (c @ ascii '' on green'')) = OnlyHere"
  "label_mark (Text (file_label f) (c @ ascii '' on red'')) = OnlyThere"
  by (simp_all add: label_mark_def)

lemma classified_cr:
  "set (classified [] (build_comparison_tree by_type_then_name lower_latin1 cr_left cr_right
      (Tree l []) scenario_colors pn)) =
    {(([], File, ascii ''ab.py''), OnlyHere), (([], File, ascii ''ab.py''), OnlyThere)}"
  "set (classified [] (build_comparison_tree by_type_then_name lower_latin1 cr_right cr_left
      (Tree l []) scenario_colors pn)) =
    {(([], File, ascii ''ab.py''), OnlyHere), (([], File, ascii ''ab.py''), OnlyThere)}"
  "set (classified [] (build_comparison_tree by_type_then_name lower_latin1 cr_left empty_dict
      (Tree l []) scenario_colors pn)) =
    {(([], File, ascii ''ab.py''), OnlyHere)}"
  by (subst classified_leaves [OF children_cr_left] classified_leaves [OF children_cr_right]
        classified_leaves [OF children_cr_alone]; auto)+

lemma build_txt_tree_empty: "build_txt_tree sf empty_dict p b = []"
  by (subst build_txt_tree.simps) (simp add: items_def empty_dict_def has_key_def)

lemma build_html_tree_empty:
  "build_html_tree sf cd empty_dict d = ascii ''<ul>'' @ [10] @ ascii ''</ul>''"
  by (subst build_html_tree.simps) (simp add: empty_dict_def has_key_def)

lemma by_type_scenario:
  "by_type_then_name [ascii ''a.py'', ascii ''b.py''] = [ascii ''a.py'', ascii ''b.py'']"
  by (simp add: by_type_then_name_def splitext_def rfind_def ascii_def)

lemma html_src_pane:
  "build_html_tree by_type_then_name scenario_data
      (Structure (Some [ascii ''a.py'', ascii ''b.py'']) []) True = scenario_src_pane"
  apply (subst build_html_tree.simps)
  apply (simp add: by_type_scenario has_key_def get_files_def scenario_data_def scenario_left_def)
  apply (simp add: html_escape_def escape_cp_def ascii_def FILES_def scenario_src_pane_def)
  done

lemma sum_list_insort_key:
  "sum_list (map g (insort_key f x xs)) = g x + sum_list (map (g :: 'a \<Rightarrow> nat) xs)"
  by (induction xs) simp_all

lemma sum_list_sort_key:
  "sum_list (map g (sort_key f xs)) = sum_list (map (g :: 'a \<Rightarrow> nat) xs)"
  by (induction xs) (simp_all add: sum_list_insort_key)

lemma map_snd_enumerate: "map snd (enumerate n xs) = xs"
  by (induction xs arbitrary: n) simp_all

lemma length_concat_enumerate:
  assumes "\<And>i x. x \<in> set xs \<Longrightarrow> length (F (i, x)) = g x"
  shows "length (concat (map F (enumerate n xs))) = sum_list (map g xs)"
  using assms by (induction xs arbitrary: n) simp_all

lemma build_txt_tree_length:
  assumes len: "\<And>fs. length (sf fs) = length fs"
  shows "well_formed s \<Longrightarrow> length (build_txt_tree sf s p b) = entry_count s"
proof (induction s arbitrary: p b)
  case (Structure fs sd)
  let ?s = "Structure fs sd"
  let ?its = "sort_key fst (items ?s)"
  let ?g = "\<lambda>(name, content). if name = FILES then 0
      else Suc (case content of SubDir c \<Rightarrow> entry_count c | FileList xs \<Rightarrow> 0)"
  have IH: "length (build_txt_tree sf c p' b') = entry_count c"
    if "(k, c) \<in> set sd" for k c p' b'
    using that Structure.prems by (intro Structure.IH [of "(k, c)" c]) (auto simp: list_all_iff)
  have sub: "(k, c) \<in> set sd" if "(k, SubDir c) \<in> set ?its" for k c
    using that by (auto simp: items_def split: option.splits)
  have files: "length (if has_key ?s FILES
         then (let files = sf (get_files ?s) in
               map (\<lambda>(i, file).
                   if int i = int (length files) - 1
                   then p @ [9492, 9472, 9472, 32, 128196, 32] @ file
                   else p @ [9500, 9472, 9472, 32, 128196, 32] @ file)
                 (enumerate 0 files))
         else []) = length (case fs of None \<Rightarrow> [] | Some xs \<Rightarrow> xs)"
    by (simp add: has_key_def get_files_def len Let_def split: option.splits)
  have "length (concat (map (\<lambda>(i, name, content).
            if name = FILES then []
            else
              (let is_last_item =
                     (int i = int (length ?its) - 1 \<or>
                      (int i = int (length ?its) - 2 \<and> has_key ?s FILES));
                   line =
                     (if is_last_item then p @ [9492, 9472, 9472, 32, 128193, 32] @ name
                      else p @ [9500, 9472, 9472, 32, 128193, 32] @ name);
                   new_prefix =
                     (if is_last_item then p @ [32, 32, 32, 32] else p @ [9474, 32, 32, 32])
               in line #
                  (case content of
                    SubDir c \<Rightarrow> build_txt_tree sf c new_prefix is_last_item
                  | FileList fs \<Rightarrow> [])))
          (enumerate 0 ?its))) = sum_list (map ?g ?its)"
  proof (rule length_concat_enumerate)
    fix i x
    assume x: "x \<in> set ?its"
    obtain name content where nc: "x = (name, content)"
      by (cases x)
    show "length (case (i, x) of (i, name, content) \<Rightarrow>
            if name = FILES then []
            else
              (let is_last_item =
                     (int i = int (length ?its) - 1 \<or>
                      (int i = int (length ?its) - 2 \<and> has_key ?s FILES));
                   line =
                     (if is_last_item then p @ [9492, 9472, 9472, 32, 128193, 32] @ name
                      else p @ [9500, 9472, 9472, 32, 128193, 32] @ name);
                   new_prefix =
                     (if is_last_item then p @ [32, 32, 32, 32] else p @ [9474, 32, 32, 32])
               in line #
                  (case content of
                    SubDir c \<Rightarrow> build_txt_tree sf c new_prefix is_last_item
                  | FileList fs \<Rightarrow> []))) = ?g x"
    proof (cases content)
      case (FileList xs)
      then show ?thesis
        unfolding nc by (simp add: Let_def)
    next
      case (SubDir c)
      with x nc have "(name, c) \<in> set sd"
        by (intro sub) simp
      then show ?thesis
        unfolding nc SubDir by (simp add: Let_def IH)
    qed
  qed
  also have "\<dots> = sum_list (map ?g (items ?s))"
    by (rule sum_list_sort_key)
  also have "\<dots> = sum_list (map (\<lambda>(k, c). Suc (entry_count c)) sd)"
  proof -
    have "FILES \<notin> fst ` set sd"
      using Structure.prems by simp
    then have "sum_list (map (?g \<circ> (\<lambda>(k, c). (k, SubDir c))) sd) =
        sum_list (map (\<lambda>(k, c). Suc (entry_count c)) sd)"
      by (intro arg_cong [where f = sum_list] map_cong [OF refl]) (auto simp: rev_image_eqI)
    then show ?thesis
      by (cases fs) (simp_all add: items_def)
  qed
  finally show ?case
    using files by (subst build_txt_tree.simps) (simp add: Let_def)
qed

lemma length_column: "lines \<noteq> [] \<Longrightarrow> length (column lines i) \<le> max_len lines"
  by (simp add: column_def max_len_def)

lemma length_ljust: "length s \<le> width \<Longrightarrow> length (ljust s width) = width"
  by (simp add: ljust_def)

text \<open>
  On the store, every operation of the renderers is framing: only \<open>tree_add\<close> writes to
  an object that was there before, and that object is a tree node. The three renderers
  are framing by induction on the depth, whenever \<open>sort_files_by_type\<close> is.
\<close>

lemma unchanged_refl: "unchanged h h"
  by (simp add: unchanged_def)

lemma unchanged_trans: "unchanged h h' \<Longrightarrow> unchanged h' h'' \<Longrightarrow> unchanged h h''"
  by (auto simp: unchanged_def)

lemma framing_ret: "framing (ret x)"
  by (simp add: framing_def ret_def unchanged_refl)

lemma framing_raise: "framing (raise e)"
  by (simp add: framing_def raise_def unchanged_refl)

lemma framing_seq:
  assumes "framing m" and "\<And>x. framing (f x)"
  shows "framing (seq m f)"
  unfolding framing_def
proof
  fix h
  obtain r h' where m: "m h = (r, h')"
    by (cases "m h")
  have 1: "unchanged h h'"
    using assms(1) m by (auto simp: framing_def dest: spec [of _ h])
  show "unchanged h (snd (seq m f h))"
  proof (cases r)
    case (Inl e)
    then show ?thesis
      using 1 m by (simp add: seq_def)
  next
    case (Inr x)
    have "unchanged h' (snd (f x h'))"
      using assms(2) [of x] by (simp add: framing_def)
    then show ?thesis
      using 1 m Inr by (auto simp: seq_def intro: unchanged_trans)
  qed
qed

lemma framing_for_each:
  assumes "\<And>x. x \<in> set xs \<Longrightarrow> framing (body x)"
  shows "framing (for_each xs body)"
  using assms by (induction xs) (auto intro!: framing_seq framing_ret)

lemma framing_map_each:
  assumes "\<And>x. x \<in> set xs \<Longrightarrow> framing (body x)"
  shows "framing (map_each xs body)"
  using assms by (induction xs) (auto intro!: framing_seq framing_ret)

lemma framing_deref: "framing (deref a)"
  by (simp add: framing_def deref_def unchanged_refl)

lemma framing_new: "framing (new ob)"
  by (simp add: framing_def new_def unchanged_def nth_append)

lemma framing_truth: "framing (truth a)"
  unfolding truth_def
  by (intro framing_seq framing_deref) (simp add: framing_ret split: obj.split)

lemma framing_contains: "framing (contains a k)"
  unfolding contains_def
  by (intro framing_seq framing_deref) (simp add: framing_ret framing_raise split: obj.split)

lemma framing_dict_items: "framing (dict_items a)"
  unfolding dict_items_def
  by (intro framing_seq framing_deref) (simp add: framing_ret framing_raise split: obj.split)

lemma framing_dict_keys: "framing (dict_keys a)"
  unfolding dict_keys_def
  by (intro framing_seq framing_deref) (simp add: framing_ret framing_raise split: obj.split)

lemma framing_dict_get_ref: "framing (dict_get_ref a k d)"
  unfolding dict_get_ref_def
  by (intro framing_seq framing_deref) (simp add: framing_ret framing_raise split: obj.split)

lemma framing_subscript: "framing (subscript a k)"
  unfolding subscript_def
  by (intro framing_seq framing_deref)
    (simp add: framing_ret framing_raise split: obj.split option.split)

lemma framing_list_values: "framing (list_values a)"
  unfolding list_values_def
  by (intro framing_seq framing_deref) (simp add: framing_ret framing_raise split: obj.split)

lemma framing_color_get: "framing (color_get a k d)"
  unfolding color_get_def
  by (intro framing_seq framing_deref) (simp add: framing_ret framing_raise split: obj.split)

lemma framing_is_dict: "framing (is_dict a)"
  unfolding is_dict_def
  by (intro framing_seq framing_deref) (simp add: framing_ret split: obj.split)

lemma framing_tree_add: "framing (tree_add t lbl)"
  by (auto simp: framing_def tree_add_def seq_def deref_def raise_def unchanged_def nth_append
      is_tree_def nth_list_update split: obj.split)

lemmas framing_intros =
  framing_ret framing_raise framing_seq framing_for_each framing_map_each framing_new
  framing_truth framing_contains framing_dict_items framing_dict_keys framing_dict_get_ref
  framing_subscript framing_list_values framing_color_get framing_is_dict framing_tree_add

lemma framing_if: "(c \<Longrightarrow> framing m) \<Longrightarrow> (\<not> c \<Longrightarrow> framing n) \<Longrightarrow> framing (if c then m else n)"
  by simp

lemma framing_build_comparison_tree_st:
  assumes "\<And>a. framing (sf a)"
  shows "framing (build_comparison_tree_st depth sf lw s other t c pn)"
proof (induction depth arbitrary: s other t pn)
  case 0
  show ?case
    by (simp add: framing_raise)
next
  case (Suc depth)
  show ?case
    unfolding build_comparison_tree_st.simps Let_def
    by (intro framing_intros framing_if assms Suc.IH | simp only: split_paired_all prod.case)+
qed

lemma framing_equals: "framing (equals depth a b)"
  by (simp add: framing_def equals_def unchanged_refl)

lemma framing_build_txt_tree_st:
  assumes "\<And>a. framing (sf a)"
  shows "framing (build_txt_tree_st depth sf s p l)"
proof (induction depth arbitrary: s p l)
  case 0
  show ?case
    by (simp add: framing_raise)
next
  case (Suc depth)
  show ?case
    unfolding build_txt_tree_st.simps Let_def
    by (intro framing_intros framing_if assms Suc.IH | simp only: split_paired_all prod.case)+
qed

lemma framing_build_html_tree_st:
  assumes "\<And>a. framing (sf a)"
  shows "framing (build_html_tree_st depth sf cd s d)"
proof (induction depth arbitrary: s)
  case 0
  show ?case
    by (simp add: framing_raise)
next
  case (Suc depth)
  show ?case
    unfolding build_html_tree_st.simps Let_def
    by (intro framing_intros framing_equals framing_if assms Suc.IH
        | simp only: split_paired_all prod.case)+
qed

lemma holds_unchanged:
  assumes "holds h a S" and "unchanged h h'"
  shows "holds h' a S"
  using assms(1)
proof (induction S arbitrary: a)
  case (Structure fs sd)
  from Structure.prems obtain kvs where a: "a < length h" and kvs: "h ! a = DictObj kvs"
    by (auto split: obj.splits)
  have keep: "b < length h' \<and> h' ! b = h ! b" if "b < length h" and "\<not> is_tree (h ! b)" for b
    using assms(2) that by (auto simp: unchanged_def)
  have a': "a < length h'" "h' ! a = DictObj kvs"
    using keep [of a] a kvs by (simp_all add: is_tree_def)
  have files: "case fs of
      None \<Rightarrow> True
    | Some xs \<Rightarrow> (case map_of kvs FILES of None \<Rightarrow> False | Some b \<Rightarrow> b < length h' \<and> h' ! b = ListObj xs)"
  proof (cases fs)
    case None
    then show ?thesis
      by simp
  next
    case (Some xs)
    with Structure.prems kvs obtain b
      where b: "map_of kvs FILES = Some b" "b < length h" "h ! b = ListObj xs"
      by (auto split: option.splits)
    then show ?thesis
      using Some keep [of b] by (simp add: is_tree_def)
  qed
  have below: "list_all (\<lambda>(k, c). case map_of kvs k of None \<Rightarrow> False | Some b \<Rightarrow> holds h' b c) sd"
    unfolding list_all_iff
  proof (intro ballI, clarify)
    fix k c
    assume kc: "(k, c) \<in> set sd"
    with Structure.prems kvs obtain b where b: "map_of kvs k = Some b" "holds h b c"
      by (auto simp: list_all_iff split: option.splits)
    have "holds h' b c"
      using Structure.IH [of "(k, c)" c b] kc b(2) by simp
    then show "case map_of kvs k of None \<Rightarrow> False | Some b \<Rightarrow> holds h' b c"
      using b(1) by simp
  qed
  show ?case
    using a' files below Structure.prems kvs by simp
qed

lemma unchanged_export_txt:
  assumes "\<And>a. framing (sf a)"
  shows "unchanged h (snd (export_comparison_to_txt_st depth sf cd path fs h))"
proof -
  let ?m = "seq (build_txt_tree_st depth sf (dir_structure (cd_dir1 cd)) [] True) (\<lambda>dir1_tree.
            seq (build_txt_tree_st depth sf (dir_structure (cd_dir2 cd)) [] True) (\<lambda>dir2_tree.
            ret (txt_layout dir1_tree dir2_tree cd)))"
  have "framing ?m"
    by (intro framing_seq framing_ret framing_build_txt_tree_st assms)
  then have "unchanged h (snd (?m h))"
    by (simp add: framing_def)
  then show ?thesis
    by (auto simp: export_comparison_to_txt_st_def split: prod.splits sum.splits)
qed

lemma unchanged_export_html:
  assumes "\<And>a. framing (sf a)"
  shows "unchanged h (snd (export_comparison_to_html_st depth sf cd path fs h))"
proof -
  let ?m = "seq (build_html_tree_st depth sf cd (dir_structure (cd_dir1 cd)) True) (\<lambda>dir1_tree.
            seq (build_html_tree_st depth sf cd (dir_structure (cd_dir2 cd)) True) (\<lambda>dir2_tree.
            ret (html_page dir1_tree dir2_tree cd)))"
  have "framing ?m"
    by (intro framing_seq framing_ret framing_build_html_tree_st assms)
  then have "unchanged h (snd (?m h))"
    by (simp add: framing_def)
  then show ?thesis
    by (auto simp: export_comparison_to_html_st_def split: prod.splits sum.splits)
qed

lemma framing_sort_files_by_type_st: "framing (sort_files_by_type_st a)"
  unfolding sort_files_by_type_st_def
  by (intro framing_seq framing_list_values framing_new)

lemma holds_scenario_store:
  "holds scenario_store 0 scenario_left" "holds scenario_store 3 scenario_right"
  by (simp_all add: scenario_store_def scenario_left_def scenario_right_def keys_def FILES_def ascii_def)

lemma by_type_scenario_right:
  "by_type_then_name [ascii ''a.py'', ascii ''c.py''] = [ascii ''a.py'', ascii ''c.py'']"
  by (simp add: by_type_then_name_def splitext_def rfind_def ascii_def)

lemma ext_py:
  "lower_latin1 (snd (splitext (ascii ''a.py''))) = ascii ''.py''"
  "lower_latin1 (snd (splitext (ascii ''b.py''))) = ascii ''.py''"
  "lower_latin1 (snd (splitext (ascii ''c.py''))) = ascii ''.py''"
  by (simp_all add: splitext_def rfind_def ascii_def lower_latin1_def lower_cp_def)

lemma store_run_scenario:
  "build_comparison_tree_st 2 sort_files_by_type_st lower_latin1 0 3 7 6 (ascii ''Root'') scenario_store =
    (Inr (),
     scenario_store[7 := TreeObj (Str (ascii ''root'')) [9]] @
     [DictObj [],
      TreeObj (Str (folder_label (ascii ''src''))) [12, 13, 16],
      ListObj [],
      ListObj [ascii ''a.py'', ascii ''b.py''],
      TreeObj (Text (file_label (ascii ''a.py'')) (ascii ''#3572A5'')) [],
      TreeObj (Text (file_label (ascii ''b.py'')) (ascii ''#3572A5 on green'')) [],
      ListObj [],
      ListObj [ascii ''a.py'', ascii ''c.py''],
      TreeObj (Text (file_label (ascii ''c.py'')) (ascii ''#3572A5 on red'')) []])"
  apply (simp add: numeral_2_eq_2 seq_def ret_def raise_def deref_def new_def contains_def truth_def
      dict_items_def dict_keys_def dict_get_ref_def subscript_def list_values_def color_get_def
      tree_add_def sort_files_by_type_st_def scenario_store_def by_type_scenario
      by_type_scenario_right ext_py dict_get_def)
  apply (simp add: FILES_def ascii_def file_label_def folder_label_def)?
  done

section \<open>The claims\<close>



theorem diff_classification_counterexample:
  "([], File, ascii ''ab.py'') \<in>
     only_here (build_comparison_tree by_type_then_name lower_latin1 cr_left cr_right
       (Tree (Text (ascii ''left'') (ascii ''bold'')) []) scenario_colors (ascii ''Root'')) \<inter>
     only_here (build_comparison_tree by_type_then_name lower_latin1 cr_right cr_left
       (Tree (Text (ascii ''right'') (ascii ''bold'')) []) scenario_colors (ascii ''Root''))"
  by (simp add: only_here_def classified_cr)



theorem file_classification_counterexample:
  "ascii ''ab.py'' \<in> names_at cr_left [] File \<union> names_at cr_right [] File \<and>
   (([], File, ascii ''ab.py''), OnlyHere) \<in>
      set (classified [] (build_comparison_tree by_type_then_name lower_latin1 cr_left cr_right
        (Tree (Text (ascii ''left'') (ascii ''bold'')) []) scenario_colors (ascii ''Root''))) \<and>
   (([], File, ascii ''ab.py''), OnlyThere) \<in>
      set (classified [] (build_comparison_tree by_type_then_name lower_latin1 cr_left cr_right
        (Tree (Text (ascii ''left'') (ascii ''bold'')) []) scenario_colors (ascii ''Root'')))"
proof (intro conjI)
  show "ascii ''ab.py'' \<in> names_at cr_left [] File \<union> names_at cr_right [] File"
    by (simp add: names_at_Nil cr_right_def get_files_def)
qed (simp_all add: classified_cr)

text \<open>
  C10. The colour lookup is total, with white as the fallback. Every file of either side,
  at every depth, has a node in the diff tree: the \<open>Text\<close> of its label with the style
  built from \<open>color_map.get(ext, "#FFFFFF")\<close> for its lowercased extension, that is the
  colour of the map when the extension has an entry and \<open>#FFFFFF\<close> when it has none (an
  extensionless file, for one), followed by the highlight of its classification. No file
  is skipped, whatever its name and whatever the tree held before. When the names have
  none of the control codes that \<open>Text\<close> removes, the node is at the path of the file.
\<close>

theorem color_lookup_total:
  assumes "\<And>fs. set (sort_files_by_type fs) = set fs"
    and "well_formed S1" and "well_formed S2"
    and "f \<in> names_at S1 q File \<union> names_at S2 q File"
  shows
    "Text (file_label f)
        ((case color_map (lower (snd (splitext f))) of None \<Rightarrow> ascii ''#FFFFFF'' | Some c \<Rightarrow> c) @
          (if f \<in> names_at S1 q File
           then (if f \<in> names_at S2 q File then [] else ascii '' on green'')
           else ascii '' on red''))
       \<in> set (nodes (build_comparison_tree sort_files_by_type lower S1 S2 t color_map n)) \<and>
     (plain_names S1 \<and> plain_names S2 \<longrightarrow>
      (q, Text (file_label f)
        ((case color_map (lower (snd (splitext f))) of None \<Rightarrow> ascii ''#FFFFFF'' | Some c \<Rightarrow> c) @
          (if f \<in> names_at S1 q File
           then (if f \<in> names_at S2 q File then [] else ascii '' on green'')
           else ascii '' on red'')))
       \<in> set (rendered [] (build_comparison_tree sort_files_by_type lower S1 S2 (Tree l []) color_map n)))"
proof
  let ?l = "node_label color_map lower File f (f \<in> names_at S1 q File) (f \<in> names_at S2 q File)"
  have l: "?l = Text (file_label f)
        ((case color_map (lower (snd (splitext f))) of None \<Rightarrow> ascii ''#FFFFFF'' | Some c \<Rightarrow> c) @
          (if f \<in> names_at S1 q File
           then (if f \<in> names_at S2 q File then [] else ascii '' on green'')
           else ascii '' on red''))"
    by (simp add: node_label_def color_of_def dict_get_def)
  have "?l \<in> set (nodes (build_comparison_tree sort_files_by_type lower S1 S2 t color_map n))"
    using assms by (rule file_node_built)
  then show "Text (file_label f)
        ((case color_map (lower (snd (splitext f))) of None \<Rightarrow> ascii ''#FFFFFF'' | Some c \<Rightarrow> c) @
          (if f \<in> names_at S1 q File
           then (if f \<in> names_at S2 q File then [] else ascii '' on green'')
           else ascii '' on red''))
       \<in> set (nodes (build_comparison_tree sort_files_by_type lower S1 S2 t color_map n))"
    unfolding l .
  show "plain_names S1 \<and> plain_names S2 \<longrightarrow>
      (q, Text (file_label f)
        ((case color_map (lower (snd (splitext f))) of None \<Rightarrow> ascii ''#FFFFFF'' | Some c \<Rightarrow> c) @
          (if f \<in> names_at S1 q File
           then (if f \<in> names_at S2 q File then [] else ascii '' on green'')
           else ascii '' on red'')))
       \<in> set (rendered [] (build_comparison_tree sort_files_by_type lower S1 S2 (Tree l []) color_map n))"
  proof
    assume pl: "plain_names S1 \<and> plain_names S2"
    have "(q, ?l) \<in> expected color_map lower S1 S2"
      using assms(4) unfolding in_expected by blast
    then have "(q, ?l) \<in> set (rendered [] (build_comparison_tree sort_files_by_type lower S1 S2
        (Tree l []) color_map n))"
      using pl by (simp add: rendered_fresh [OF assms(1-3)])
    then show "(q, Text (file_label f)
        ((case color_map (lower (snd (splitext f))) of None \<Rightarrow> ascii ''#FFFFFF'' | Some c \<Rightarrow> c) @
          (if f \<in> names_at S1 q File
           then (if f \<in> names_at S2 q File then [] else ascii '' on green'')
           else ascii '' on red'')))
       \<in> set (rendered [] (build_comparison_tree sort_files_by_type lower S1 S2 (Tree l []) color_map n))"
      unfolding l .
  qed
qed

theorem color_lookup_total_witness:
  "ascii ''README'' \<in>
     names_at (Structure (Some [ascii ''README'']) []) [] File \<union> names_at empty_dict [] File \<and>
   Text (file_label (ascii ''README'')) (ascii ''#FFFFFF on green'')
     \<in> set (nodes (build_comparison_tree by_type_then_name lower_latin1
          (Structure (Some [ascii ''README'']) []) empty_dict
          (Tree (Text (ascii ''left'') (ascii ''bold'')) []) scenario_colors (ascii ''Root'')))"
proof -
  let ?S = "Structure (Some [ascii ''README'']) []"
  have here: "ascii ''README'' \<in> names_at ?S [] File"
    by (simp add: names_at_def get_files_def)
  have there: "ascii ''README'' \<notin> names_at empty_dict [] File"
    by (simp add: names_at_empty)
  have mem: "ascii ''README'' \<in> names_at ?S [] File \<union> names_at empty_dict [] File"
    using here by simp
  have "snd (splitext (ascii ''README'')) = []"
    by (simp add: splitext_def rfind_def ascii_def)
  then have key: "scenario_colors (lower_latin1 (snd (splitext (ascii ''README'')))) = None"
    by (simp add: lower_latin1_def scenario_colors_def ascii_def)
  have style: "(case scenario_colors (lower_latin1 (snd (splitext (ascii ''README'')))) of
        None \<Rightarrow> ascii ''#FFFFFF'' | Some c \<Rightarrow> c) @
      (if ascii ''README'' \<in> names_at ?S [] File
       then (if ascii ''README'' \<in> names_at empty_dict [] File then [] else ascii '' on green'')
       else ascii '' on red'') = ascii ''#FFFFFF on green''"
    unfolding key using here there by (simp add: ascii_def)
  have wf: "well_formed ?S"
    by simp
  from color_lookup_total [OF set_by_type_then_name wf well_formed_empty mem,
      of scenario_colors lower_latin1 "Tree (Text (ascii ''left'') (ascii ''bold'')) []"
        "ascii ''Root''", THEN conjunct1]
  have "Text (file_label (ascii ''README'')) (ascii ''#FFFFFF on green'')
     \<in> set (nodes (build_comparison_tree by_type_then_name lower_latin1 ?S empty_dict
          (Tree (Text (ascii ''left'') (ascii ''bold'')) []) scenario_colors (ascii ''Root'')))"
    unfolding style .
  with mem show ?thesis ..
qed

text \<open>
  C2. The HTML export and the diff tree do not agree on what is unique. On scenario A
  the file \<open>src/a.py\<close> is on both sides, and the diff tree classifies it common; the left
  pane of the HTML export gives it the class \<open>file-unique\<close>. Inside \<open>src\<close> the structure
  at hand is not the structure of the first side, so \<open>_build_html_tree\<close> takes the top
  level of the first side as the other structure, which has no file list, and every file
  below the top level comes out unique.
\<close>

theorem html_marks_common_file_unique:
  "build_html_tree by_type_then_name scenario_data scenario_left True = scenario_left_pane \<and>
   (([ascii ''src''], File, ascii ''a.py''), Common) \<in>
      set (classified [] (build_comparison_tree by_type_then_name lower_latin1 scenario_left
        scenario_right (Tree (Text ([128194, 32] @ ascii ''left'') (ascii ''bold'')) [])
        scenario_colors (ascii ''Root'')))"
proof
  have "build_html_tree by_type_then_name scenario_data scenario_left True =
    join [10]
      [ascii ''<ul>'',
       ascii ''<li'' @ [] @ ascii ''><span class='' @ [34] @ ascii ''directory'' @ [34] @ ascii ''>'' @
         [128193, 32] @ html_escape (ascii ''src'') @ ascii ''</span>'',
       build_html_tree by_type_then_name scenario_data
         (Structure (Some [ascii ''a.py'', ascii ''b.py'']) []) True,
       ascii ''</li>'',
       ascii ''</ul>'']"
    apply (subst build_html_tree.simps)
    apply (simp add: scenario_left_def has_key_def)
    apply (simp add: scenario_data_def scenario_left_def scenario_right_def FILES_def ascii_def)
    done
  then show "build_html_tree by_type_then_name scenario_data scenario_left True = scenario_left_pane"
    unfolding html_src_pane
    by (simp add: scenario_left_pane_def html_escape_def escape_cp_def ascii_def)
  have "ascii ''a.py'' \<in> names_at scenario_left [ascii ''src''] File"
    "ascii ''a.py'' \<in> names_at scenario_right [ascii ''src''] File"
    by (simp_all add: names_at_scenario)
  then show "(([ascii ''src''], File, ascii ''a.py''), Common) \<in>
      set (classified [] (build_comparison_tree by_type_then_name lower_latin1 scenario_left
        scenario_right (Tree (Text ([128194, 32] @ ascii ''left'') (ascii ''bold'')) [])
        scenario_colors (ascii ''Root'')))"
    by (simp add: classified_verdict verdict_def)
qed




text \<open>
  C5. An unsupported export format. For every \<open>format_type\<close> other than \<open>"txt"\<close> and
  \<open>"html"\<close>, \<open>export_comparison\<close> raises \<open>ValueError\<close> with the message
  \<open>Unsupported format:\<close> followed by the value, and the file system is as it was before the
  call: nothing is written at \<open>output_path\<close>.
\<close>

theorem unsupported_format_rejected:
  assumes "format_type \<noteq> ascii ''txt''" and "format_type \<noteq> ascii ''html''"
  shows
    "export_comparison get_directory_structure compile_regex_patterns sort_files_by_type lower
        dir1 dir2 format_type output_path exclude_dirs ignore_file exclude_extensions
        exclude_patterns include_patterns use_regex fs =
      (fs, Some (ValueError (ascii ''Unsupported format: '' @ format_type)))"
  using assms by (simp add: export_comparison_def Let_def split: prod.splits)

theorem unsupported_format_rejected_witness:
  "ascii ''pdf'' \<noteq> ascii ''txt'' \<and> ascii ''pdf'' \<noteq> ascii ''html'' \<and>
   export_comparison nothing_there keep_patterns by_type_then_name lower_latin1
      (ascii ''left'') (ascii ''right'') (ascii ''pdf'') (ascii ''out.pdf'') None None None None None
      False no_files =
    (no_files, Some (ValueError (ascii ''Unsupported format: pdf''))) \<and>
   contents (fst (export_comparison nothing_there keep_patterns by_type_then_name lower_latin1
      (ascii ''left'') (ascii ''right'') (ascii ''pdf'') (ascii ''out.pdf'') None None None None None
      False no_files)) (ascii ''out.pdf'') = None"
proof -
  have neq: "ascii ''pdf'' \<noteq> ascii ''txt''" "ascii ''pdf'' \<noteq> ascii ''html''"
    by (simp_all add: ascii_def)
  note r = unsupported_format_rejected [OF neq, of nothing_there keep_patterns by_type_then_name
      lower_latin1 "ascii ''left''" "ascii ''right''" "ascii ''out.pdf''" None None None None None
      False no_files]
  have "ascii ''Unsupported format: '' @ ascii ''pdf'' = ascii ''Unsupported format: pdf''"
    by (simp add: ascii_def)
  with r neq show ?thesis
    by (simp add: no_files_def)
qed





text \<open>
  C8. The comparator. \<open>compare_directory_structures\<close> runs the walk on both roots with
  the same filter configuration and returns the two structures as the walk gave them,
  with the union of the two extension sets.
\<close>

theorem comparator_contract:
  "compare_directory_structures get_directory_structure dir1 dir2 exclude_dirs ignore_file
      exclude_extensions exclude_patterns include_patterns =
    (fst (get_directory_structure dir1 exclude_dirs ignore_file exclude_extensions exclude_patterns
        include_patterns),
     fst (get_directory_structure dir2 exclude_dirs ignore_file exclude_extensions exclude_patterns
        include_patterns),
     snd (get_directory_structure dir1 exclude_dirs ignore_file exclude_extensions exclude_patterns
        include_patterns) \<union>
     snd (get_directory_structure dir2 exclude_dirs ignore_file exclude_extensions exclude_patterns
        include_patterns))"
  by (simp add: compare_directory_structures_def split: prod.splits)

text \<open>
  C9. Renderers do not mutate their inputs. On every store, whatever the two structures
  and the colour map in it are, after a run of \<open>build_comparison_tree\<close>, of the text
  exporter or of the HTML exporter the two structures and the colour map are what they
  were before the run, whether the run returns or raises. \<open>sort_files_by_type\<close> is not
  among the sources: the theorem is for every helper that leaves the dictionaries, lists
  and colour maps of the store as they are.
\<close>

theorem renderers_do_not_mutate_inputs:
  assumes "\<And>a. framing (sort_files_by_type a)"
    and "holds h (dir_structure (cd_dir1 cd)) S1"
    and "holds h (dir_structure (cd_dir2 cd)) S2"
    and "c < length h" and "h ! c = ColorsObj color_map"
    and "h' = snd (build_comparison_tree_st depth sort_files_by_type lower
                    (dir_structure (cd_dir1 cd)) (dir_structure (cd_dir2 cd)) tree c parent_name h)
       \<or> h' = snd (export_comparison_to_txt_st depth sort_files_by_type cd output_path fs h)
       \<or> h' = snd (export_comparison_to_html_st depth sort_files_by_type cd output_path fs h)"
  shows "holds h' (dir_structure (cd_dir1 cd)) S1 \<and> holds h' (dir_structure (cd_dir2 cd)) S2 \<and>
         h' ! c = ColorsObj color_map"
proof -
  have "unchanged h h'"
    using assms(6) framing_build_comparison_tree_st [OF assms(1)]
      unchanged_export_txt [OF assms(1)] unchanged_export_html [OF assms(1)]
    by (auto simp: framing_def)
  then show ?thesis
    using assms(2-5) by (auto intro: holds_unchanged simp: unchanged_def is_tree_def)
qed

theorem renderers_do_not_mutate_inputs_witness:
  "fst (build_comparison_tree_st 2 sort_files_by_type_st lower_latin1 0 3 7 6 (ascii ''Root'')
        scenario_store) = Inr () \<and>
   holds (snd (build_comparison_tree_st 2 sort_files_by_type_st lower_latin1 0 3 7 6 (ascii ''Root'')
        scenario_store)) 0 scenario_left \<and>
   holds (snd (build_comparison_tree_st 2 sort_files_by_type_st lower_latin1 0 3 7 6 (ascii ''Root'')
        scenario_store)) 3 scenario_right \<and>
   snd (build_comparison_tree_st 2 sort_files_by_type_st lower_latin1 0 3 7 6 (ascii ''Root'')
        scenario_store) ! 6 = ColorsObj [(ascii ''.py'', ascii ''#3572A5'')]"
proof -
  have "scenario_store ! 6 = ColorsObj [(ascii ''.py'', ascii ''#3572A5'')]"
    and "6 < length scenario_store"
    and "dir_structure (cd_dir1 scenario_refs) = 0"
    and "dir_structure (cd_dir2 scenario_refs) = 3"
    by (simp_all add: scenario_store_def scenario_refs_def)
  then have "holds (snd (build_comparison_tree_st 2 sort_files_by_type_st lower_latin1 0 3 7 6
        (ascii ''Root'') scenario_store)) 0 scenario_left \<and>
      holds (snd (build_comparison_tree_st 2 sort_files_by_type_st lower_latin1 0 3 7 6
        (ascii ''Root'') scenario_store)) 3 scenario_right \<and>
      snd (build_comparison_tree_st 2 sort_files_by_type_st lower_latin1 0 3 7 6 (ascii ''Root'')
        scenario_store) ! 6 = ColorsObj [(ascii ''.py'', ascii ''#3572A5'')]"
    using renderers_do_not_mutate_inputs [of sort_files_by_type_st scenario_store scenario_refs
        scenario_left scenario_right 6 "[(ascii ''.py'', ascii ''#3572A5'')]" _ 2 lower_latin1 7
        "ascii ''Root''", OF framing_sort_files_by_type_st _ _ _ _ disjI1 [OF refl]]
      holds_scenario_store
    by simp
  moreover have "fst (build_comparison_tree_st 2 sort_files_by_type_st lower_latin1 0 3 7 6
      (ascii ''Root'') scenario_store) = Inr ()"
    by (simp only: store_run_scenario fst_conv)
  ultimately show ?thesis
    by (rule conjI [rotated])
qed

end
